theory Spec2Isabelle
  imports Complex_Main "HOL-Library.Char_ord" "HOL-Library.List_Lexorder"
    "HOL-Library.Multiset" "HOL-Library.Product_Lexorder" "HOL-Library.Sublist"
begin

section \<open>Python values, errors and arithmetic\<close>

text \<open>
  The scrapers and the analysis of the repository are Python over pandas. The embedding
  keeps the values the code computes with and makes every exception a value.

  \<^item> A Python float is modelled by a real number and the arithmetic is exact; the
    rounding of the floating-point operations is taken up for the round trip of the
    two odds converters only, and the infinities are outside the model. The one special
    float the code tests for, not-a-number, is a value of its own.
  \<^item> A cell of a numeric pandas column is a \<open>real option\<close>: \<open>None\<close> is the
    missing value (\<open>NaN\<close> or Python's \<open>None\<close>, which \<open>isna\<close> does not tell apart).
  \<^item> An exception is a value of \<open>py_error\<close>; a function that can raise returns
    \<open>py_error + 'a\<close>, with \<open>Inl\<close> for the exception that escapes it.
\<close>

datatype py_error = ZeroDivisionError | ValueError | TypeError | KeyError | AttributeError
  | ParseError

text \<open>
  The scalar objects the two odds converters can be called with: \<open>None\<close>, the float
  \<open>nan\<close>, a number (an \<open>int\<close> or a finite \<open>float\<close>), and a text. A text carries
  what Python's \<open>float()\<close> makes of it: \<open>PyText s (Some r)\<close> is a text that
  \<open>float()\<close> reads as \<open>r\<close>, \<open>PyText s None\<close> one on which it raises
  \<open>ValueError\<close>.
\<close>

datatype pyobj = PyNone | PyNaN | PyNum real | PyText string "real option"

type_synonym num = "real option"

text \<open>\<open>pd.isna\<close> on a scalar.\<close>

fun pd_isna :: "pyobj \<Rightarrow> bool" where
  "pd_isna PyNone = True"
| "pd_isna PyNaN = True"
| "pd_isna _ = False"

text \<open>\<open>isinstance(x, (int, float))\<close>: \<open>nan\<close> is a float.\<close>

fun is_int_or_float :: "pyobj \<Rightarrow> bool" where
  "is_int_or_float (PyNum d) = True"
| "is_int_or_float PyNaN = True"
| "is_int_or_float _ = False"

text \<open>
  \<open>float(x)\<close>: \<open>TypeError\<close> on \<open>None\<close>, \<open>ValueError\<close> on a text that is no
  number. The result is again an object, since \<open>float(nan)\<close> is \<open>nan\<close>.
\<close>

fun py_float :: "pyobj \<Rightarrow> py_error + pyobj" where
  "py_float PyNone = Inl TypeError"
| "py_float PyNaN = Inr PyNaN"
| "py_float (PyNum a) = Inr (PyNum a)"
| "py_float (PyText s None) = Inl ValueError"
| "py_float (PyText s (Some a)) = Inr (PyNum a)"

text \<open>
  Division of Python floats: a zero divisor raises \<open>ZeroDivisionError\<close> (HOL's own
  \<open>x / 0\<close> is \<open>0\<close>, so the test is written out).
\<close>

definition py_div :: "real \<Rightarrow> real \<Rightarrow> py_error + real" where
  "py_div x y = (if y = 0 then Inl ZeroDivisionError else Inr (x / y))"

section \<open>The odds converters\<close>

text \<open>
  \<^verbatim>\<open>def convert_to_american_odds(decimal_odds):\<close> of \<^verbatim>\<open>MLB2025.py\<close> (the same text
  in every script of the repository). It returns \<open>None\<close> for a missing value or an
  object that is no number, and a float otherwise.
\<close>

definition convert_to_american_odds :: "pyobj \<Rightarrow> py_error + num" where
  "convert_to_american_odds decimal_odds =
     (if pd_isna decimal_odds \<or> \<not> is_int_or_float decimal_odds then Inr None
      else case decimal_odds of
        PyNum d \<Rightarrow>
          if d \<ge> 2.0 then Inr (Some ((d * 100) - 100))
          else (case py_div (- 100) (d - 1) of
                  Inl e \<Rightarrow> Inl e
                | Inr q \<Rightarrow> Inr (Some q))
      | _ \<Rightarrow> Inr None)"

text \<open>
  \<^verbatim>\<open>def convert_american_to_decimal(american_odds):\<close> of \<^verbatim>\<open>MLB2025fork1.py\<close>.
  \<open>None\<close> in the result is \<open>np.nan\<close>. The handler catches \<open>ValueError\<close> and
  \<open>TypeError\<close> only; any other exception of the body escapes. A \<open>nan\<close> that
  reaches the arithmetic fails the test \<open>> 0\<close> and gives \<open>nan\<close> again.
\<close>

fun is_empty_text :: "pyobj \<Rightarrow> bool" where
  "is_empty_text (PyText s r) = (s = [])"
| "is_empty_text _ = False"

definition convert_american_to_decimal :: "pyobj \<Rightarrow> py_error + num" where
  "convert_american_to_decimal american_odds =
     (if pd_isna american_odds \<or> is_empty_text american_odds then Inr None
      else
        (let body =
           (case py_float american_odds of
              Inl e \<Rightarrow> Inl e
            | Inr (PyNum a) \<Rightarrow>
                if a > 0 then Inr (Some ((a / 100) + 1))
                else (case py_div 100 \<bar>a\<bar> of
                        Inl e \<Rightarrow> Inl e
                      | Inr q \<Rightarrow> Inr (Some (q + 1)))
            | Inr _ \<Rightarrow> Inr None)
         in case body of
              Inl e \<Rightarrow> if e = ValueError \<or> e = TypeError then Inr None else Inl e
            | Inr v \<Rightarrow> Inr v))"

subsection \<open>The converters with rounding\<close>

text \<open>
  A floating-point operation of Python returns the exact result rounded to a float.
  Claim C5 speaks of a tolerance, so the two converters are also given with every
  arithmetic result passed through a rounding function \<open>rnd\<close>, on numbers (the other
  inputs compute nothing). With the identity for \<open>rnd\<close> they are the converters above
  (lemmas \<open>convert_to_american_odds_fl_exact\<close>, \<open>convert_american_to_decimal_fl_exact\<close>).
  A rounding function has relative error at most \<open>u\<close> on the magnitudes that occur
  in the round trip, between \<open>1/2\<close> and \<open>20000\<close>, where binary floating point
  neither overflows nor underflows; for IEEE double precision \<open>u\<close> is \<open>2 ^ -53\<close>.
\<close>

definition convert_to_american_odds_fl :: "(real \<Rightarrow> real) \<Rightarrow> real \<Rightarrow> py_error + num" where
  "convert_to_american_odds_fl rnd d =
     (if d \<ge> 2.0 then Inr (Some (rnd (rnd (d * 100) - 100)))
      else (case py_div (- 100) (rnd (d - 1)) of
              Inl e \<Rightarrow> Inl e
            | Inr q \<Rightarrow> Inr (Some (rnd q))))"

definition convert_american_to_decimal_fl :: "(real \<Rightarrow> real) \<Rightarrow> real \<Rightarrow> py_error + num" where
  "convert_american_to_decimal_fl rnd a =
     (if a > 0 then Inr (Some (rnd (rnd (a / 100) + 1)))
      else (case py_div 100 \<bar>a\<bar> of
              Inl e \<Rightarrow> Inl e
            | Inr q \<Rightarrow> Inr (Some (rnd (rnd q + 1)))))"

definition rounds_within :: "real \<Rightarrow> (real \<Rightarrow> real) \<Rightarrow> bool" where
  "rounds_within u rnd =
     (\<forall>x. 1 / 2 \<le> \<bar>x\<bar> \<and> \<bar>x\<bar> \<le> 20000 \<longrightarrow> \<bar>rnd x - x\<bar> \<le> u * \<bar>x\<bar>)"

text \<open>A rounding that is off by the full relative error \<open>2 ^ -53\<close>, for an example.\<close>

definition example_rnd :: "real \<Rightarrow> real" where
  "example_rnd x = x * (1 + 1 / 2 ^ 53)"

section \<open>Text methods\<close>

text \<open>\<open>str.strip\<close> with a set of characters, and with none (white space).\<close>

definition strip_chars :: "char list \<Rightarrow> string \<Rightarrow> string" where
  "strip_chars cs s =
     rev (dropWhile (\<lambda>c. c \<in> set cs) (rev (dropWhile (\<lambda>c. c \<in> set cs) s)))"

definition whitespace :: "char list" where
  "whitespace = [CHR '' '', CHR 0x09, CHR 0x0A, CHR 0x0D, CHR 0x0B, CHR 0x0C, CHR 0x1C,
     CHR 0x1D, CHR 0x1E, CHR 0x1F, CHR 0x85, CHR 0xA0]"

text \<open>
  \<open>str.split(sep)\<close> with a separator of one character: the text is cut at every
  occurrence, so two separators in a row give an empty part, and the empty text gives
  one empty part.
\<close>

fun py_split :: "char \<Rightarrow> string \<Rightarrow> string list" where
  "py_split sep [] = [[]]"
| "py_split sep (c # cs) =
     (if c = sep then [] # py_split sep cs
      else (case py_split sep cs of
              [] \<Rightarrow> [[c]]
            | w # ws \<Rightarrow> (c # w) # ws))"

text \<open>
  A cell of a float column as the object \<open>Series.apply\<close> hands to the function: a
  Python float, \<open>nan\<close> for the missing value.
\<close>

fun cell_obj :: "num \<Rightarrow> pyobj" where
  "cell_obj None = PyNaN"
| "cell_obj (Some d) = PyNum d"

text \<open>A loop that calls a raising function on every element stops at the first exception.\<close>

fun try_map :: "('a \<Rightarrow> py_error + 'b) \<Rightarrow> 'a list \<Rightarrow> py_error + 'b list" where
  "try_map f [] = Inr []"
| "try_map f (x # xs) =
     (case f x of
        Inl e \<Rightarrow> Inl e
      | Inr y \<Rightarrow> (case try_map f xs of Inl e \<Rightarrow> Inl e | Inr ys \<Rightarrow> Inr (y # ys)))"

text \<open>
  \<open>sort_values\<close> puts missing keys last. The key of a cell is a pair whose first
  component says that the cell is missing; pairs are ordered lexicographically, texts
  by code point. pandas sorts a single column with an unstable algorithm, so the order
  among equal keys is not fixed by the source; the model uses a stable sort, and no
  theorem below depends on the order among equal keys.
\<close>

type_synonym timestamp = "int option"

definition na_last :: "'a \<Rightarrow> 'a option \<Rightarrow> bool \<times> 'a" where
  "na_last d c = (case c of None \<Rightarrow> (True, d) | Some v \<Rightarrow> (False, v))"

section \<open>The odds feed: \<open>scrape_sbri_data\<close>\<close>

text \<open>
  The JSON feed, as \<open>response.json()\<close> returns it. A name is a \<open>string option\<close>
  (\<open>dict.get\<close> gives \<open>None\<close> for a missing key). A price or handicap is the number
  \<open>pd.to_numeric(..., errors='coerce')\<close> reads from the field: \<open>None\<close> where the key is
  missing, null or not numeric. The start time is the field as \<open>pd.to_datetime\<close> sees
  it: missing, an instant, or a text it rejects with an exception.
\<close>

record selection =
  sel_name :: "string option"
  price :: num
  currenthandicap :: num
  currentmatchhandicap :: num

record market =
  market_name :: "string option"
  selections :: "selection list"

datatype ts_field = TsMissing | TsInstant int | TsInvalid

record event =
  sportname :: "string option"
  tsstart :: ts_field
  externaldescription :: "string option"
  shortnameaway :: "string option"
  shortnamehome :: "string option"
  markets :: "market list"

datatype sbri_response = SbriRequestFailed | SbriBadJson | SbriEvents "event list"

fun to_datetime :: "ts_field \<Rightarrow> py_error + timestamp" where
  "to_datetime TsMissing = Inr None"
| "to_datetime (TsInstant t) = Inr (Some t)"
| "to_datetime TsInvalid = Inl ParseError"

record game_data =
  Sport :: "string option"
  GameStart :: timestamp
  Game :: "string option"
  AwayTeam :: "string option"
  HomeTeam :: "string option"
  Away_MLOdds :: num
  Home_MLOdds :: num
  HomeSpread :: num
  AwaySpreadOdds :: num
  HomeSpreadOdds :: num
  UnderOdds :: num
  OverOdds :: num
  Handicap :: num

text \<open>The three selection loops: a later selection of the same role overwrites an earlier one.\<close>

definition money_line_selection :: "game_data \<Rightarrow> selection \<Rightarrow> game_data" where
  "money_line_selection g s =
     (if sel_name s = AwayTeam g then g\<lparr>Away_MLOdds := price s\<rparr>
      else if sel_name s = HomeTeam g then g\<lparr>Home_MLOdds := price s\<rparr>
      else g)"

definition run_line_selection :: "game_data \<Rightarrow> selection \<Rightarrow> game_data" where
  "run_line_selection g s =
     (if sel_name s = AwayTeam g then g\<lparr>AwaySpreadOdds := price s\<rparr>
      else if sel_name s = HomeTeam g
        then g\<lparr>HomeSpread := currenthandicap s, HomeSpreadOdds := price s\<rparr>
      else g)"

definition total_runs_selection :: "game_data \<Rightarrow> selection \<Rightarrow> game_data" where
  "total_runs_selection g s =
     (if sel_name s = Some ''Over''
        then g\<lparr>OverOdds := price s, Handicap := currentmatchhandicap s\<rparr>
      else if sel_name s = Some ''Under'' then g\<lparr>UnderOdds := price s\<rparr>
      else g)"

definition process_market :: "game_data \<Rightarrow> market \<Rightarrow> game_data" where
  "process_market g m =
     (let g1 = (if market_name m = Some ''Money Line''
                then foldl money_line_selection g (selections m) else g);
          g2 = (if market_name m = Some ''Run Line''
                then foldl run_line_selection g1 (selections m) else g1)
      in if market_name m = Some ''Total Runs''
         then foldl total_runs_selection g2 (selections m) else g2)"

definition process_event :: "event \<Rightarrow> py_error + game_data" where
  "process_event ev =
     (case to_datetime (tsstart ev) of
        Inl e \<Rightarrow> Inl e
      | Inr t \<Rightarrow>
          Inr (foldl process_market
            \<lparr>Sport = sportname ev, GameStart = t, Game = externaldescription ev,
             AwayTeam = shortnameaway ev, HomeTeam = shortnamehome ev,
             Away_MLOdds = None, Home_MLOdds = None, HomeSpread = None,
             AwaySpreadOdds = None, HomeSpreadOdds = None, UnderOdds = None,
             OverOdds = None, Handicap = None\<rparr>
            (markets ev)))"

text \<open>
  \<^verbatim>\<open>df[col] = pd.to_numeric(df[col], errors='coerce').apply(convert_to_american_odds)\<close>
  for one column, given by its selector and its update.
\<close>

definition convert_column ::
  "(game_data \<Rightarrow> num) \<Rightarrow> (num \<Rightarrow> game_data \<Rightarrow> game_data) \<Rightarrow> game_data list
     \<Rightarrow> py_error + game_data list" where
  "convert_column sel upd df =
     try_map (\<lambda>g. case convert_to_american_odds (cell_obj (sel g)) of
                      Inl e \<Rightarrow> Inl e
                    | Inr v \<Rightarrow> Inr (upd v g)) df"

fun convert_columns ::
  "((game_data \<Rightarrow> num) \<times> (num \<Rightarrow> game_data \<Rightarrow> game_data)) list \<Rightarrow> game_data list
     \<Rightarrow> py_error + game_data list" where
  "convert_columns [] df = Inr df"
| "convert_columns ((sel, upd) # cols) df =
     (case convert_column sel upd df of
        Inl e \<Rightarrow> Inl e
      | Inr df' \<Rightarrow> convert_columns cols df')"

definition odds_cols :: "((game_data \<Rightarrow> num) \<times> (num \<Rightarrow> game_data \<Rightarrow> game_data)) list" where
  "odds_cols =
     [(Away_MLOdds, \<lambda>v g. g\<lparr>Away_MLOdds := v\<rparr>),
      (Home_MLOdds, \<lambda>v g. g\<lparr>Home_MLOdds := v\<rparr>),
      (HomeSpreadOdds, \<lambda>v g. g\<lparr>HomeSpreadOdds := v\<rparr>),
      (AwaySpreadOdds, \<lambda>v g. g\<lparr>AwaySpreadOdds := v\<rparr>),
      (OverOdds, \<lambda>v g. g\<lparr>OverOdds := v\<rparr>),
      (UnderOdds, \<lambda>v g. g\<lparr>UnderOdds := v\<rparr>)]"

definition sbri_sort_key :: "game_data \<Rightarrow> (bool \<times> int) \<times> (bool \<times> string)" where
  "sbri_sort_key g = (na_last 0 (GameStart g), na_last [] (AwayTeam g))"

text \<open>
  \<^verbatim>\<open>def scrape_sbri_data():\<close> of \<^verbatim>\<open>MLB2025.py\<close>, as a function of what the request
  gives. The result \<open>Inr None\<close> is the return value \<open>None\<close> (the request or the JSON
  decoding failed, which the function catches), \<open>Inr (Some [])\<close> the empty frame, and
  \<open>Inl e\<close> an exception that escapes: the loop over the events and the conversion of
  the odds columns stand outside the \<open>try\<close>.
\<close>

definition scrape_sbri_data :: "sbri_response \<Rightarrow> py_error + game_data list option" where
  "scrape_sbri_data response =
     (case response of
        SbriRequestFailed \<Rightarrow> Inr None
      | SbriBadJson \<Rightarrow> Inr None
      | SbriEvents events \<Rightarrow>
          (case try_map process_event events of
             Inl e \<Rightarrow> Inl e
           | Inr processed_rows \<Rightarrow>
               if processed_rows = [] then Inr (Some [])
               else (case convert_columns odds_cols processed_rows of
                       Inl e \<Rightarrow> Inl e
                     | Inr df \<Rightarrow> Inr (Some (sort_key sbri_sort_key df)))))"

subsection \<open>Vocabulary for the invariant of the price fields\<close>

text \<open>
  A decimal price of the feed is missing or strictly greater than \<open>1.0\<close>; a valid
  American price is missing or of magnitude at least \<open>100\<close>. The six price fields of
  a record are the columns of \<open>odds_cols\<close>.
\<close>

definition decimal_price :: "num \<Rightarrow> bool" where
  "decimal_price v = (case v of None \<Rightarrow> True | Some d \<Rightarrow> 1 < d)"

definition valid_american :: "num \<Rightarrow> bool" where
  "valid_american v = (case v of None \<Rightarrow> True | Some a \<Rightarrow> 100 \<le> \<bar>a\<bar>)"

definition price_fields :: "game_data \<Rightarrow> num list" where
  "price_fields g = [Away_MLOdds g, Home_MLOdds g, HomeSpreadOdds g, AwaySpreadOdds g,
     OverOdds g, UnderOdds g]"

definition prices_decimal :: "event \<Rightarrow> bool" where
  "prices_decimal ev =
     list_all (\<lambda>m. list_all (\<lambda>s. decimal_price (price s)) (selections m)) (markets ev)"

definition raw_ok :: "game_data \<Rightarrow> bool" where
  "raw_ok g = list_all decimal_price (price_fields g)"

text \<open>
  What the conversion of a column does to a cell that holds a decimal price, and to a
  whole record, once no division by zero can occur (used in the proofs only).
\<close>

definition american_of :: "num \<Rightarrow> num" where
  "american_of v = (case v of None \<Rightarrow> None
     | Some d \<Rightarrow> Some (if 2 \<le> d then d * 100 - 100 else - 100 / (d - 1)))"

definition convert_row :: "game_data \<Rightarrow> game_data" where
  "convert_row g = g\<lparr>Away_MLOdds := american_of (Away_MLOdds g),
      Home_MLOdds := american_of (Home_MLOdds g),
      HomeSpreadOdds := american_of (HomeSpreadOdds g),
      AwaySpreadOdds := american_of (AwaySpreadOdds g),
      OverOdds := american_of (OverOdds g),
      UnderOdds := american_of (UnderOdds g)\<rparr>"

text \<open>Records whose moneylines are not zero (zero is no American price).\<close>

definition away_nonzero :: "game_data \<Rightarrow> bool" where
  "away_nonzero g = (Away_MLOdds g \<noteq> Some 0)"

definition moneylines_nonzero :: "game_data \<Rightarrow> bool" where
  "moneylines_nonzero g = (Home_MLOdds g \<noteq> Some 0 \<and> Away_MLOdds g \<noteq> Some 0)"

text \<open>
  A feed with one event: a Money Line market priced \<open>2.05\<close> for the away team and
  \<open>1.91\<close> for the home team, and a Total Runs market.
\<close>

definition example_event :: event where
  "example_event =
     \<lparr>sportname = Some ''Baseball'', tsstart = TsInstant 1750000000,
      externaldescription = Some ''New York Yankees at Boston Red Sox'',
      shortnameaway = Some ''New York Yankees'', shortnamehome = Some ''Boston Red Sox'',
      markets =
        [\<lparr>market_name = Some ''Money Line'',
          selections =
            [\<lparr>sel_name = Some ''New York Yankees'', price = Some (41 / 20),
              currenthandicap = None, currentmatchhandicap = None\<rparr>,
             \<lparr>sel_name = Some ''Boston Red Sox'', price = Some (191 / 100),
              currenthandicap = None, currentmatchhandicap = None\<rparr>]\<rparr>,
         \<lparr>market_name = Some ''Total Runs'',
          selections =
            [\<lparr>sel_name = Some ''Over'', price = Some 2,
              currenthandicap = None, currentmatchhandicap = Some (17 / 2)\<rparr>,
             \<lparr>sel_name = Some ''Under'', price = Some (9 / 5),
              currenthandicap = None, currentmatchhandicap = Some (17 / 2)\<rparr>]\<rparr>]\<rparr>"

section \<open>The reconciliation: \<open>perform_baseball_analysis\<close>\<close>

text \<open>
  \<^verbatim>\<open>def perform_baseball_analysis(sbri_df, dratings_df):\<close> of \<^verbatim>\<open>MLB2025fork1.py\<close>.
  \<open>main\<close> passes it the results of the two scrapers as they are, so an argument is
  \<open>None\<close> (the scraper failed), the frame \<open>pd.DataFrame()\<close> without columns
  (\<open>scrape_sbri_data\<close> with no event), or a frame with the scraper's columns and any
  number of rows. Indexing a column raises \<open>TypeError\<close> on \<open>None\<close> and
  \<open>KeyError\<close> on the frame without columns.
\<close>

datatype 'r frame = NoFrame | NoColumns | Frame "'r list"

fun frame_rows :: "'r frame \<Rightarrow> py_error + 'r list" where
  "frame_rows NoFrame = Inl TypeError"
| "frame_rows NoColumns = Inl KeyError"
| "frame_rows (Frame rs) = Inr rs"

text \<open>
  A row of the prediction frame as \<open>scrape_dratings_data\<close> leaves it: the instant
  \<open>Time\<close> (a column with a time zone) and the text columns \<open>Teams\<close> and \<open>Win\<close>;
  \<open>None\<close> is a missing cell. Columns that the function neither reads nor writes are
  left out. Step 1 adds four columns, and renames \<open>Time\<close> to \<open>Timestamp\<close>: the
  field \<open>Time\<close> of a \<open>pred_row\<close> is that renamed column.
\<close>

record dratings_row =
  Time :: timestamp
  Teams :: "string option"
  Win :: "string option"

record pred_row = dratings_row +
  pred_AwayTeam :: "string option"
  pred_HomeTeam :: "string option"
  AwayWinProb_pred :: num
  HomeWinProb_pred :: num

text \<open>
  The library calls of step 1 whose results depend on text or time-zone rules are
  parameters:

  \<^item> \<open>str_extract\<close> is the match of one text against the regular expression of
    the source (a team name, a win-loss record in parentheses, a second team name and
    a second record): its two groups, the names, or \<open>None\<close> when the text does not
    match;
  \<^item> \<open>to_numeric\<close> is the number \<open>pd.to_numeric(..., errors='coerce')\<close> reads from a
    text, \<open>None\<close> when it reads none;
  \<^item> \<open>tz_localize\<close> is \<^verbatim>\<open>.dt.tz_localize('America/New_York', ambiguous='infer')\<close> on
    a column of start times: the column of instants (of the same length), or the
    exception pandas raises when the column already has a zone or holds a wall-clock
    time that does not exist or cannot be resolved in the zone.
\<close>

record library =
  str_extract :: "string \<Rightarrow> (string \<times> string) option"
  to_numeric :: "string \<Rightarrow> real option"
  tz_localize :: "timestamp list \<Rightarrow> py_error + timestamp list"

text \<open>
  \<^verbatim>\<open>dratings_df['Win'].str.split(' ', expand=True)\<close>: a frame with as many columns as
  the longest row has parts; a missing cell counts as one (missing) part, and a frame
  without rows gives a frame without columns. Selecting a column that does not exist
  raises \<open>KeyError\<close>; a row with fewer parts has the cell missing.
\<close>

definition str_split :: "char \<Rightarrow> string option list \<Rightarrow> string list option list" where
  "str_split sep col = map (map_option (py_split sep)) col"

definition expand_width :: "string list option list \<Rightarrow> nat" where
  "expand_width parts =
     fold max (map (\<lambda>p. case p of None \<Rightarrow> 1 | Some ws \<Rightarrow> length ws) parts) 0"

definition expand_column :: "string list option list \<Rightarrow> nat \<Rightarrow> py_error + string option list" where
  "expand_column parts i =
     (if i < expand_width parts
      then Inr (map (\<lambda>p. case p of
                            None \<Rightarrow> None
                          | Some ws \<Rightarrow> if i < length ws then Some (ws ! i) else None) parts)
      else Inl KeyError)"

text \<open>
  \<^verbatim>\<open>pd.to_numeric(win_probs[i].str.strip('%'), errors='coerce') / 100\<close> on one cell.
\<close>

definition win_prob :: "library \<Rightarrow> string option \<Rightarrow> num" where
  "win_prob lib c =
     map_option (\<lambda>x. x / 100) (Option.bind c (\<lambda>s. to_numeric lib (strip_chars ''%'' s)))"

text \<open>
  Step 1, first half (\<^verbatim>\<open># --- Clean DRatings Data ---\<close>): the two team names are the
  groups of the pattern, stripped of white space, and missing where the text does not
  match; the two probabilities are parts 0 and 1 of \<open>Win\<close>; \<open>tz_convert\<close> changes
  the zone of \<open>Time\<close> and not the instant. The accessor \<open>.str\<close> meets text columns
  only: \<open>Teams\<close> and \<open>Win\<close> are text columns of the frame, and when part 1 exists
  both parts hold a text. \<open>Inl e\<close> is an exception raised inside the \<open>try\<close>.
\<close>

definition clean_dratings :: "library \<Rightarrow> dratings_row frame \<Rightarrow> py_error + pred_row list" where
  "clean_dratings lib dratings_df =
     (case frame_rows dratings_df of
        Inl e \<Rightarrow> Inl e
      | Inr rs \<Rightarrow>
          (let team_names = map (\<lambda>d. Option.bind (Teams d) (str_extract lib)) rs;
               win_probs = str_split (CHR '' '') (map Win rs)
           in case expand_column win_probs 0 of
                Inl e \<Rightarrow> Inl e
              | Inr away \<Rightarrow>
                  (case expand_column win_probs 1 of
                     Inl e \<Rightarrow> Inl e
                   | Inr home \<Rightarrow>
                       Inr (map (\<lambda>(d, t, a, h).
                              dratings_row.extend d
                                (pred_row.fields
                                   (map_option (\<lambda>t. strip_chars whitespace (fst t)) t)
                                   (map_option (\<lambda>t. strip_chars whitespace (snd t)) t)
                                   (win_prob lib a) (win_prob lib h)))
                            (zip rs (zip team_names (zip away home)))))))"

text \<open>
  Step 1, second half (\<^verbatim>\<open># --- Clean SBRI Data ---\<close>): the start times are localised,
  and the column is renamed to \<open>Timestamp\<close> (the field \<open>GameStart\<close> of the result is
  that renamed column).
\<close>

definition clean_sbri :: "library \<Rightarrow> game_data frame \<Rightarrow> py_error + game_data list" where
  "clean_sbri lib sbri_df =
     (case frame_rows sbri_df of
        Inl e \<Rightarrow> Inl e
      | Inr rs \<Rightarrow>
          (case tz_localize lib (map GameStart rs) of
             Inl e \<Rightarrow> Inl e
           | Inr ts \<Rightarrow> Inr (map (\<lambda>(g, t). g\<lparr>GameStart := t\<rparr>) (zip rs ts))))"

text \<open>The body of the \<open>try\<close> of step 1: the predictions first, then the odds.\<close>

definition pre_processing ::
  "library \<Rightarrow> game_data frame \<Rightarrow> dratings_row frame \<Rightarrow> py_error + game_data list \<times> pred_row list" where
  "pre_processing lib sbri_df dratings_df =
     (case clean_dratings lib dratings_df of
        Inl e \<Rightarrow> Inl e
      | Inr preds \<Rightarrow>
          (case clean_sbri lib sbri_df of
             Inl e \<Rightarrow> Inl e
           | Inr odds \<Rightarrow> Inr (odds, preds)))"

text \<open>
  A row of the merged frame: the three key columns, the columns of the odds frame and
  the columns of the prediction frame (the prefix \<open>m_\<close> keeps the column names apart
  from the fields of the two inputs). The later frames add columns: \<open>Status\<close>; then
  \<open>BestBetTeam\<close> and \<open>BestBetValue\<close>, the only computed columns of the returned
  frame; and the six further columns that exist in \<open>analysis_ready_df\<close> only.
\<close>

record merged_row =
  Timestamp :: timestamp
  m_HomeTeam :: "string option"
  m_AwayTeam :: "string option"
  m_Sport :: "string option"
  m_Game :: "string option"
  m_Away_MLOdds :: num
  m_Home_MLOdds :: num
  m_HomeSpread :: num
  m_AwaySpreadOdds :: num
  m_HomeSpreadOdds :: num
  m_UnderOdds :: num
  m_OverOdds :: num
  m_Handicap :: num
  m_Teams :: "string option"
  m_Win :: "string option"
  m_AwayWinProb_pred :: num
  m_HomeWinProb_pred :: num

record status_row = merged_row +
  Status :: string

record final_row = status_row +
  BestBetTeam :: "string option"
  BestBetValue :: num

record ready_row = final_row +
  HomeDecimalOdds :: num
  AwayDecimalOdds :: num
  HomeImpliedProb :: num
  AwayImpliedProb :: num
  HomeValue :: num
  AwayValue :: num

text \<open>
  Step 2, \<^verbatim>\<open>pd.merge(sbri_df, dratings_df, on=['Timestamp', 'HomeTeam', 'AwayTeam'], how='outer')\<close>.
  Every pair of rows with equal keys gives a row (pandas matches missing keys with
  each other, as the equality of \<open>None\<close> does); a row without a partner is kept with
  the other side's columns missing. pandas orders the result by the keys; the model
  lists the rows of the odds frame first. The frame is sorted by \<open>Timestamp\<close> right
  after, and no theorem depends on the order among equal timestamps.
\<close>

type_synonym join_key = "timestamp \<times> string option \<times> string option"

definition odds_key :: "game_data \<Rightarrow> join_key" where
  "odds_key g = (GameStart g, HomeTeam g, AwayTeam g)"

definition pred_key :: "pred_row \<Rightarrow> join_key" where
  "pred_key d = (Time d, pred_HomeTeam d, pred_AwayTeam d)"

definition row_key :: "'a merged_row_scheme \<Rightarrow> join_key" where
  "row_key m = (Timestamp m, m_HomeTeam m, m_AwayTeam m)"

definition join_rows :: "join_key \<Rightarrow> game_data option \<Rightarrow> pred_row option \<Rightarrow> merged_row" where
  "join_rows k g d =
     \<lparr>Timestamp = fst k, m_HomeTeam = fst (snd k), m_AwayTeam = snd (snd k),
      m_Sport = Option.bind g Sport, m_Game = Option.bind g Game,
      m_Away_MLOdds = Option.bind g Away_MLOdds, m_Home_MLOdds = Option.bind g Home_MLOdds,
      m_HomeSpread = Option.bind g HomeSpread,
      m_AwaySpreadOdds = Option.bind g AwaySpreadOdds,
      m_HomeSpreadOdds = Option.bind g HomeSpreadOdds,
      m_UnderOdds = Option.bind g UnderOdds, m_OverOdds = Option.bind g OverOdds,
      m_Handicap = Option.bind g Handicap,
      m_Teams = Option.bind d Teams, m_Win = Option.bind d Win,
      m_AwayWinProb_pred = Option.bind d AwayWinProb_pred,
      m_HomeWinProb_pred = Option.bind d HomeWinProb_pred\<rparr>"

definition merge_outer :: "game_data list \<Rightarrow> pred_row list \<Rightarrow> merged_row list" where
  "merge_outer sbri_df dratings_df =
     concat (map (\<lambda>g.
        case filter (\<lambda>d. pred_key d = odds_key g) dratings_df of
          [] \<Rightarrow> [join_rows (odds_key g) (Some g) None]
        | ds \<Rightarrow> map (\<lambda>d. join_rows (odds_key g) (Some g) (Some d)) ds) sbri_df)
     @ map (\<lambda>d. join_rows (pred_key d) None (Some d))
         (filter (\<lambda>d. \<not> list_ex (\<lambda>g. odds_key g = pred_key d) sbri_df) dratings_df)"

text \<open>
  Step 3. \<open>np.select\<close> takes the choice of the first condition that holds, and the
  default when none does. The three conditions read the two home columns only.
\<close>

fun np_select :: "bool list \<Rightarrow> 'a list \<Rightarrow> 'a \<Rightarrow> 'a" where
  "np_select (c # conditions) (x # choices) dflt =
     (if c then x else np_select conditions choices dflt)"
| "np_select _ _ dflt = dflt"

definition notna :: "'a option \<Rightarrow> bool" where
  "notna c = (c \<noteq> None)"

definition row_status :: "merged_row \<Rightarrow> string" where
  "row_status m =
     np_select
       [notna (m_Home_MLOdds m) \<and> notna (m_HomeWinProb_pred m),
        \<not> notna (m_Home_MLOdds m),
        \<not> notna (m_HomeWinProb_pred m)]
       [''Ready for Analysis'', ''Missing Odds'', ''Missing Prediction'']
       ''Unknown''"

definition add_status :: "merged_row \<Rightarrow> status_row" where
  "add_status m = merged_row.extend m (status_row.fields (row_status m))"

definition fill_game :: "status_row \<Rightarrow> status_row" where
  "fill_game m = m\<lparr>m_Game := (case m_Game m of None \<Rightarrow> m_Teams m | Some g \<Rightarrow> Some g)\<rparr>"

definition ts_key :: "'a merged_row_scheme \<Rightarrow> bool \<times> int" where
  "ts_key m = na_last 0 (Timestamp m)"

text \<open>
  Step 4. Comparisons with \<open>NaN\<close> are false, \<open>np.maximum\<close> and the arithmetic
  give \<open>NaN\<close> when an operand is \<open>NaN\<close>. The quotient \<open>1 / decimal odds\<close> is a
  division of pandas columns, which does not raise; the decimal odds that
  \<open>convert_american_to_decimal\<close> returns are greater than \<open>1\<close>
  (lemma \<open>decimal_odds_gt_1\<close>), so HOL's \<open>1 / 0\<close> is never met.
\<close>

definition nan_gt :: "num \<Rightarrow> num \<Rightarrow> bool" where
  "nan_gt x y = (case (x, y) of (Some a, Some b) \<Rightarrow> a > b | _ \<Rightarrow> False)"

definition np_maximum :: "num \<Rightarrow> num \<Rightarrow> num" where
  "np_maximum x y = (case (x, y) of (Some a, Some b) \<Rightarrow> Some (max a b) | _ \<Rightarrow> None)"

definition edge_value :: "num \<Rightarrow> num \<Rightarrow> num" where
  "edge_value p d = (case (p, d) of (Some a, Some b) \<Rightarrow> Some ((a * b) - 1) | _ \<Rightarrow> None)"

definition implied_prob :: "num \<Rightarrow> num" where
  "implied_prob d = map_option (\<lambda>x. 1 / x) d"

definition with_best_bet :: "status_row \<Rightarrow> string option \<Rightarrow> num \<Rightarrow> final_row" where
  "with_best_bet m t v = status_row.extend m (final_row.fields t v)"

definition calc_row :: "status_row \<Rightarrow> num \<Rightarrow> num \<Rightarrow> ready_row" where
  "calc_row m hdec adec =
     (let hv = edge_value (m_HomeWinProb_pred m) hdec;
          av = edge_value (m_AwayWinProb_pred m) adec
      in final_row.extend
           (with_best_bet m (if nan_gt hv av then m_HomeTeam m else m_AwayTeam m) (np_maximum hv av))
           (ready_row.fields hdec adec (implied_prob hdec) (implied_prob adec) hv av))"

text \<open>
  The frame \<open>analysis_ready_df\<close>: the rows with status \<open>Ready for Analysis\<close>, with
  the two decimal-odds columns computed one after the other by
  \<open>.apply(convert_american_to_decimal)\<close>, outside any \<open>try\<close>, and then the columns
  computed from them.
\<close>

definition analysis_ready :: "status_row list \<Rightarrow> py_error + ready_row list" where
  "analysis_ready merged_df =
     (let ready = filter (\<lambda>m. Status m = ''Ready for Analysis'') merged_df in
      case try_map (\<lambda>m. convert_american_to_decimal (cell_obj (m_Home_MLOdds m))) ready of
        Inl e \<Rightarrow> Inl e
      | Inr hds \<Rightarrow>
          (case try_map (\<lambda>m. convert_american_to_decimal (cell_obj (m_Away_MLOdds m))) ready of
             Inl e \<Rightarrow> Inl e
           | Inr ads \<Rightarrow> Inr (map (\<lambda>(m, hdec, adec). calc_row m hdec adec) (zip ready (zip hds ads)))))"

text \<open>
  \<^verbatim>\<open>merged_df.merge(positive_value_bets[[..., 'BestBetTeam', 'BestBetValue']], on=[...], how='left')\<close>:
  every row of \<open>merged_df\<close> is kept, once for each row of \<open>positive_value_bets\<close> with
  its key, and once with the two columns missing when there is none.
\<close>

definition merge_left :: "status_row list \<Rightarrow> ready_row list \<Rightarrow> final_row list" where
  "merge_left merged_df positive_value_bets =
     concat (map (\<lambda>m.
        case filter (\<lambda>p. row_key p = row_key m) positive_value_bets of
          [] \<Rightarrow> [with_best_bet m None None]
        | ps \<Rightarrow> map (\<lambda>p. with_best_bet m (BestBetTeam p) (BestBetValue p)) ps) merged_df)"

text \<open>
  \<open>merged_df\<close> after the status column, the filling of \<open>Game\<close> and the sort by
  \<open>Timestamp\<close>; then steps 2 to 4 of the function, on the two frames that step 1
  leaves. \<open>Inl e\<close> is an exception that escapes the function: these steps are outside
  any \<open>try\<close>.
\<close>

definition merged_frame :: "game_data list \<Rightarrow> pred_row list \<Rightarrow> status_row list" where
  "merged_frame sbri_df dratings_df =
     sort_key ts_key (map (fill_game \<circ> add_status) (merge_outer sbri_df dratings_df))"

definition merge_and_calculate ::
  "game_data list \<Rightarrow> pred_row list \<Rightarrow> py_error + final_row list" where
  "merge_and_calculate sbri_df dratings_df =
     (if merge_outer sbri_df dratings_df = [] then Inr []
      else
        (let merged_df = merged_frame sbri_df dratings_df in
         case analysis_ready merged_df of
           Inl e \<Rightarrow> Inl e
         | Inr analysis_ready_df \<Rightarrow>
             if analysis_ready_df \<noteq> [] then
               (let positive_value_bets =
                      filter (\<lambda>r. nan_gt (BestBetValue r) (Some 0)) analysis_ready_df;
                    final_df = merge_left merged_df positive_value_bets
                in Inr (sort_key ts_key final_df))
             else Inr (sort_key ts_key (map (\<lambda>m. with_best_bet m None None) merged_df))))"

text \<open>
  The function: an exception in step 1 is caught by \<^verbatim>\<open>except Exception\<close>, which
  prints it and returns the empty frame \<open>pd.DataFrame()\<close>, a frame without rows.
\<close>

definition perform_baseball_analysis ::
  "library \<Rightarrow> game_data frame \<Rightarrow> dratings_row frame \<Rightarrow> py_error + final_row list" where
  "perform_baseball_analysis lib sbri_df dratings_df =
     (case pre_processing lib sbri_df dratings_df of
        Inl e \<Rightarrow> Inr []
      | Inr (odds, preds) \<Rightarrow> merge_and_calculate odds preds)"

subsection \<open>Vocabulary for the claims about the reconciliation\<close>

text \<open>
  The decimal odds of a non-zero American price (spec, section 4.5); the rows the
  function calls ready; the row of \<open>analysis_ready_df\<close> that belongs to a ready row
  once no division by zero can occur; and the rows with no zero moneyline.
\<close>

definition decimal_of_american :: "real \<Rightarrow> real" where
  "decimal_of_american a = (if a > 0 then a / 100 + 1 else 100 / \<bar>a\<bar> + 1)"

definition is_ready :: "'a status_row_scheme \<Rightarrow> bool" where
  "is_ready m = (Status m = ''Ready for Analysis'')"

definition ready_of :: "status_row \<Rightarrow> ready_row" where
  "ready_of m = calc_row m (map_option decimal_of_american (m_Home_MLOdds m))
     (map_option decimal_of_american (m_Away_MLOdds m))"

definition nonzero_odds :: "'a merged_row_scheme \<Rightarrow> bool" where
  "nonzero_odds m = (m_Home_MLOdds m \<noteq> Some 0 \<and> m_Away_MLOdds m \<noteq> Some 0)"

text \<open>
  The classification as the specification words it (section 4.6, step 3): both sides
  of both sources for \<open>Ready for Analysis\<close>, a side "entirely absent" for the two
  missing statuses, \<open>Unknown\<close> otherwise, in that priority order.
\<close>

definition claimed_status :: "'a merged_row_scheme \<Rightarrow> string" where
  "claimed_status m =
     (if notna (m_Home_MLOdds m) \<and> notna (m_Away_MLOdds m)
          \<and> notna (m_HomeWinProb_pred m) \<and> notna (m_AwayWinProb_pred m)
        then ''Ready for Analysis''
      else if \<not> notna (m_Home_MLOdds m) \<and> \<not> notna (m_Away_MLOdds m) then ''Missing Odds''
      else if \<not> notna (m_HomeWinProb_pred m) \<and> \<not> notna (m_AwayWinProb_pred m)
        then ''Missing Prediction''
      else ''Unknown'')"

text \<open>
  How many times the left merge of step 4 carries a row \<open>m\<close> of \<open>merged_df\<close>: once for
  every row of \<open>analysis_ready_df\<close> with its key and a strictly positive best value,
  and once when there is none.
\<close>

definition copies :: "ready_row list \<Rightarrow> status_row \<Rightarrow> nat" where
  "copies ready m =
     max 1 (length (filter (\<lambda>p. row_key p = row_key m)
                      (filter (\<lambda>p. nan_gt (BestBetValue p) (Some 0)) ready)))"


text \<open>
  Example frames as step 1 leaves them: the record of \<open>example_event\<close> with its
  start time localised, and predictions for the same game.
\<close>

definition example_odds :: game_data where
  "example_odds =
     \<lparr>Sport = Some ''Baseball'', GameStart = Some 1750000000,
      Game = Some ''New York Yankees at Boston Red Sox'',
      AwayTeam = Some ''New York Yankees'', HomeTeam = Some ''Boston Red Sox'',
      Away_MLOdds = Some 105, Home_MLOdds = Some (- (10000 / 91)),
      HomeSpread = None, AwaySpreadOdds = None, HomeSpreadOdds = None,
      UnderOdds = Some (- 125), OverOdds = Some 100, Handicap = Some (17 / 2)\<rparr>"

definition example_pred :: pred_row where
  "example_pred =
     \<lparr>Time = Some 1750000000,
      Teams = Some ''New York Yankees (40-30) Boston Red Sox (35-35)'',
      Win = Some ''40.0% 60.0%'',
      pred_AwayTeam = Some ''New York Yankees'', pred_HomeTeam = Some ''Boston Red Sox'',
      AwayWinProb_pred = Some (2 / 5), HomeWinProb_pred = Some (3 / 5)\<rparr>"

text \<open>The same game with the model giving the home team 52 percent.\<close>

definition example_pred_even :: pred_row where
  "example_pred_even =
     example_pred\<lparr>Win := Some ''48.0% 52.0%'', AwayWinProb_pred := Some (12 / 25),
       HomeWinProb_pred := Some (13 / 25)\<rparr>"

text \<open>The odds record with the away moneyline missing from the feed.\<close>

definition example_odds_home_only :: game_data where
  "example_odds_home_only = example_odds\<lparr>Away_MLOdds := None\<rparr>"

text \<open>Both sides priced at \<open>+150\<close>, and a model that sees an even game.\<close>

definition example_odds_level :: game_data where
  "example_odds_level = example_odds\<lparr>Away_MLOdds := Some 150, Home_MLOdds := Some 150\<rparr>"

definition example_pred_level :: pred_row where
  "example_pred_level =
     example_pred\<lparr>Win := Some ''50.0% 50.0%'', AwayWinProb_pred := Some (1 / 2),
       HomeWinProb_pred := Some (1 / 2)\<rparr>"

text \<open>An odds record a day later and a prediction a day earlier, each without a partner.\<close>

definition example_odds_late :: game_data where
  "example_odds_late = example_odds\<lparr>GameStart := Some 1750086400\<rparr>"

definition example_pred_early :: pred_row where
  "example_pred_early = example_pred\<lparr>Time := Some 1749913600\<rparr>"

text \<open>The home team at 50 percent and the away team at 45: both values are negative.\<close>

definition example_pred_low :: pred_row where
  "example_pred_low =
     example_pred\<lparr>Win := Some ''45.0% 50.0%'', AwayWinProb_pred := Some (9 / 20),
       HomeWinProb_pred := Some (1 / 2)\<rparr>"

text \<open>
  The frames of the two scrapers before step 1: the start time of an odds record is
  the wall-clock time of the feed, and a prediction has none of the derived columns.
  The example library reads the texts of these frames, and localises a wall-clock time
  of the summer (four hours behind universal time).
\<close>

definition scraped_odds :: "game_data \<Rightarrow> game_data" where
  "scraped_odds g = g\<lparr>GameStart := map_option (\<lambda>t. t - 14400) (GameStart g)\<rparr>"

definition scraped_pred :: "pred_row \<Rightarrow> dratings_row" where
  "scraped_pred d = dratings_row.truncate d"

definition example_library :: library where
  "example_library =
     \<lparr>str_extract = (\<lambda>s. if s = ''New York Yankees (40-30) Boston Red Sox (35-35)''
                          then Some (''New York Yankees'', ''Boston Red Sox'') else None),
      to_numeric = map_of [(''40.0'', 40), (''60.0'', 60), (''48.0'', 48), (''52.0'', 52),
                           (''45.0'', 45), (''50.0'', 50)],
      tz_localize = (\<lambda>ts. Inr (map (map_option (\<lambda>t. t + 14400)) ts))\<rparr>"

text \<open>A prediction frame whose only row has a single percentage.\<close>

definition example_dratings_one_part :: dratings_row where
  "example_dratings_one_part = (scraped_pred example_pred)\<lparr>Win := Some ''40.0%''\<rparr>"

section \<open>The multi-page collector: \<open>scrape_dratings_data\<close>\<close>

text \<open>
  \<^verbatim>\<open>def scrape_dratings_data():\<close> of \<^verbatim>\<open>MLB2025.py\<close>. A table as \<open>pd.read_html\<close>
  returns it has column labels and rows; a row maps a label to the cell it holds, and a
  label without a cell is the missing value \<open>NaN\<close>. A cell is typed, as pandas
  infers it: a text, a number, or (after \<open>pd.to_datetime\<close>) an instant.

  What the three requests give is a function from the URL: the request fails with a
  \<open>RequestException\<close> (a network error, a timeout, or a bad status raised by
  \<open>raise_for_status\<close>) carrying a message, or \<open>pd.read_html\<close> raises an exception of
  its own on the page (\<open>ValueError: No tables found\<close>, a parser error), or it returns
  the tables of the page. The log is the list of the records written, oldest first.
  The pause \<open>time.sleep(2)\<close> after each page has no value and is not modelled.
\<close>

datatype cell = Text string | Number real | Instant int

type_synonym row = "(string \<times> cell) list"

record table =
  columns :: "string list"
  rows :: "row list"

datatype page_result = RequestFailed string | ParseFailed | Tables "table list"

datatype level = INFO | WARNING | ERROR

type_synonym log = "(level \<times> string) list"

definition cell_of :: "row \<Rightarrow> string \<Rightarrow> cell option" where
  "cell_of r c = map_of r c"

text \<open>The decimal numeral of a page number, for the f-strings (\<open>digit_char\<close> is
  applied to numbers below ten only).\<close>

definition digit_char :: "nat \<Rightarrow> char" where
  "digit_char n = ''0123456789'' ! n"

fun str_nat :: "nat \<Rightarrow> string" where
  "str_nat n = (if n < 10 then [digit_char n] else str_nat (n div 10) @ [digit_char (n mod 10)])"

declare str_nat.simps [simp del]

definition page_url :: "string \<Rightarrow> nat \<Rightarrow> string" where
  "page_url DRATINGS_URL page_num =
     (if page_num > 0 then DRATINGS_URL @ ''upcoming/'' @ str_nat page_num else DRATINGS_URL)"

definition quoted_pitchers :: string where
  "quoted_pitchers = [CHR 0x27] @ ''Pitchers'' @ [CHR 0x27]"

text \<open>The inner loop: the first table with a column \<open>Pitchers\<close>.\<close>

definition pitchers_table :: "table list \<Rightarrow> table option" where
  "pitchers_table page_tables = find (\<lambda>t. ''Pitchers'' \<in> set (columns t)) page_tables"

text \<open>
  One turn of the loop over the pages, on the tables collected and the log written so
  far. The handler catches \<open>RequestException\<close> only: an exception of
  \<open>pd.read_html\<close> escapes the loop and the function (\<open>Inl\<close>, with the log written
  until then).
\<close>

definition scrape_page ::
  "(string \<Rightarrow> page_result) \<Rightarrow> string \<Rightarrow> table list \<times> log \<Rightarrow> nat
     \<Rightarrow> py_error \<times> log + table list \<times> log" where
  "scrape_page fetch DRATINGS_URL state page_num =
     (let url = page_url DRATINGS_URL page_num;
          all_dfs = fst state;
          lg = snd state @ [(INFO, ''Scraping page '' @ str_nat page_num @ '': '' @ url)]
      in case fetch url of
           RequestFailed e \<Rightarrow>
             Inr (all_dfs,
               lg @ [(WARNING, ''Could not scrape DRatings page '' @ str_nat page_num
                        @ '': '' @ e)])
         | ParseFailed \<Rightarrow> Inl (ValueError, lg)
         | Tables page_tables \<Rightarrow>
             (case pitchers_table page_tables of
                Some t \<Rightarrow>
                  Inr (all_dfs @ [t],
                    lg @ [(INFO, ''Found '' @ quoted_pitchers @ '' table on page ''
                             @ str_nat page_num @ ''.'')])
              | None \<Rightarrow>
                  Inr (all_dfs,
                    lg @ [(WARNING, ''Could not find a '' @ quoted_pitchers
                             @ '' table on page '' @ str_nat page_num @ ''.'')])))"

fun scrape_pages ::
  "(string \<Rightarrow> page_result) \<Rightarrow> string \<Rightarrow> table list \<times> log \<Rightarrow> nat list
     \<Rightarrow> py_error \<times> log + table list \<times> log" where
  "scrape_pages fetch url state [] = Inr state"
| "scrape_pages fetch url state (page_num # page_nums) =
     (case scrape_page fetch url state page_num of
        Inl e \<Rightarrow> Inl e
      | Inr state' \<Rightarrow> scrape_pages fetch url state' page_nums)"

text \<open>
  \<open>pd.concat(all_dfs, ignore_index=True)\<close>: the labels in the order of their first
  appearance, the rows one table after the other.
\<close>

definition concat_tables :: "table list \<Rightarrow> table" where
  "concat_tables dfs = \<lparr>columns = rev (remdups (rev (concat (map columns dfs)))),
     rows = concat (map rows dfs)\<rparr>"

text \<open>
  \<open>drop_duplicates\<close> keeps the first row of every key (missing keys count as
  equal). The keys seen so far are carried along.
\<close>

fun drop_duplicates_seen :: "('a \<Rightarrow> 'k) \<Rightarrow> 'k list \<Rightarrow> 'a list \<Rightarrow> 'a list" where
  "drop_duplicates_seen key seen [] = []"
| "drop_duplicates_seen key seen (r # rs) =
     (if key r \<in> set seen then drop_duplicates_seen key seen rs
      else r # drop_duplicates_seen key (key r # seen) rs)"

definition drop_duplicates :: "string \<Rightarrow> table \<Rightarrow> py_error + table" where
  "drop_duplicates subset_col df =
     (if subset_col \<notin> set (columns df) then Inl KeyError
      else Inr (df\<lparr>rows := drop_duplicates_seen (\<lambda>r. cell_of r subset_col) [] (rows df)\<rparr>))"

text \<open>\<open>df.drop(columns=..., errors='ignore')\<close>.\<close>

definition drop_columns :: "string list \<Rightarrow> table \<Rightarrow> table" where
  "drop_columns cs df =
     \<lparr>columns = filter (\<lambda>c. c \<notin> set cs) (columns df),
      rows = map (filter (\<lambda>(c, v). c \<notin> set cs)) (rows df)\<rparr>"

text \<open>
  The text accessor \<open>.str\<close> raises \<open>AttributeError\<close> unless the column holds
  texts: a column with rows and no text cell has a numeric type. It leaves \<open>NaN\<close>
  for a cell that is no text.
\<close>

definition is_text :: "cell option \<Rightarrow> bool" where
  "is_text c = (case c of Some (Text s) \<Rightarrow> True | _ \<Rightarrow> False)"

definition str_accessor_ok :: "string \<Rightarrow> table \<Rightarrow> bool" where
  "str_accessor_ok c df = (rows df = [] \<or> list_ex (\<lambda>r. is_text (cell_of r c)) (rows df))"

text \<open>Python's \<open>str.replace\<close>: all occurrences, left to right, without overlap.\<close>

function str_replace :: "string \<Rightarrow> string \<Rightarrow> string \<Rightarrow> string" where
  "str_replace old new [] = []"
| "str_replace old new (c # cs) =
     (if old \<noteq> [] \<and> prefix old (c # cs)
      then new @ str_replace old new (drop (length old) (c # cs))
      else c # str_replace old new cs)"
  by pat_completeness auto
termination
  by (relation "measure (\<lambda>(old, new, s). length s)") auto

definition set_cell :: "string \<Rightarrow> cell option \<Rightarrow> row \<Rightarrow> row" where
  "set_cell c v r =
     (case v of
        None \<Rightarrow> filter (\<lambda>(k, x). k \<noteq> c) r
      | Some x \<Rightarrow> if c \<in> fst ` set r then map (\<lambda>(k, y). if k = c then (k, x) else (k, y)) r
                  else r @ [(c, x)])"

definition str_replace_column :: "string \<Rightarrow> string \<Rightarrow> string \<Rightarrow> table \<Rightarrow> py_error + table" where
  "str_replace_column c old new df =
     (if c \<notin> set (columns df) then Inl KeyError
      else if \<not> str_accessor_ok c df then Inl AttributeError
      else Inr (df\<lparr>rows := map (\<lambda>r. set_cell c
                  (case cell_of r c of Some (Text s) \<Rightarrow> Some (Text (str_replace old new s))
                   | _ \<Rightarrow> None) r) (rows df)\<rparr>))"

text \<open>
  \<open>pd.to_datetime(df['Time'], format='mixed', utc=True, errors='coerce')\<close>, then
  \<open>dropna(subset=['Time'])\<close>. The reading of a cell by pandas is a parameter:
  \<open>to_datetime_coerce c\<close> is the instant read from the cell \<open>c\<close>, \<open>None\<close> (\<open>NaT\<close>)
  where it reads none. The conversion to the zone \<open>America/New_York\<close> changes the
  display of an instant, not the instant.
\<close>

definition parse_time_column :: "(cell \<Rightarrow> int option) \<Rightarrow> table \<Rightarrow> py_error + table" where
  "parse_time_column to_datetime_coerce df =
     (if ''Time'' \<notin> set (columns df) then Inl KeyError
      else Inr (df\<lparr>rows := map (\<lambda>r. set_cell ''Time''
                  (map_option Instant (Option.bind (cell_of r ''Time'') to_datetime_coerce)) r)
                  (rows df)\<rparr>))"

definition dropna_time :: "table \<Rightarrow> table" where
  "dropna_time df = df\<lparr>rows := filter (\<lambda>r. cell_of r ''Time'' \<noteq> None) (rows df)\<rparr>"

definition dratings_sort_key :: "row \<Rightarrow> (bool \<times> int) \<times> (bool \<times> string)" where
  "dratings_sort_key r =
     (case cell_of r ''Time'' of Some (Instant t) \<Rightarrow> (False, t) | _ \<Rightarrow> (True, 0),
      case cell_of r ''Teams'' of Some (Text s) \<Rightarrow> (False, s) | _ \<Rightarrow> (True, []))"

text \<open>The cleaning of the combined frame, from \<open>pd.concat\<close> to the final sort.\<close>

definition clean_frame :: "(cell \<Rightarrow> int option) \<Rightarrow> table list \<Rightarrow> py_error + table" where
  "clean_frame to_datetime_coerce all_dfs =
     (case drop_duplicates ''Teams'' (concat_tables all_dfs) of
        Inl e \<Rightarrow> Inl e
      | Inr df1 \<Rightarrow>
          (case str_replace_column ''Teams'' ''Oakland Athletics'' ''Athletics''
                  (drop_columns [''Pitchers'', ''Best ML'', ''Best Spread'', ''Best O/U''] df1) of
             Inl e \<Rightarrow> Inl e
           | Inr df2 \<Rightarrow>
               (case parse_time_column to_datetime_coerce df2 of
                  Inl e \<Rightarrow> Inl e
                | Inr df3 \<Rightarrow>
                    Inr ((dropna_time df3)\<lparr>rows :=
                      sort_key dratings_sort_key (rows (dropna_time df3))\<rparr>))))"

text \<open>
  The function: its value, and the log it has written when it returns. The value
  \<open>Inr None\<close> is the return value \<open>None\<close>, \<open>Inl e\<close> an exception that escapes.
\<close>

definition scrape_dratings_data ::
  "(cell \<Rightarrow> int option) \<Rightarrow> (string \<Rightarrow> page_result) \<Rightarrow> string
     \<Rightarrow> (py_error + table option) \<times> log" where
  "scrape_dratings_data to_datetime_coerce fetch DRATINGS_URL =
     (case scrape_pages fetch DRATINGS_URL ([], []) [0 ..< 3] of
        Inl (e, lg) \<Rightarrow> (Inl e, lg)
      | Inr (all_dfs, lg) \<Rightarrow>
          if all_dfs = [] then
            (Inr None, lg @ [(ERROR, ''Failed to scrape any data from DRatings.'')])
          else (case clean_frame to_datetime_coerce all_dfs of
                  Inl e \<Rightarrow> (Inl e, lg)
                | Inr df \<Rightarrow> (Inr (Some df), lg)))"

subsection \<open>Vocabulary for the claim about the collector\<close>

text \<open>
  The table a page contributes (none when the request failed or no table has the
  column), the records a page writes to the log, the warnings that report a skipped
  page, and the cleaning as it acts on one row.
\<close>

definition kept_table :: "page_result \<Rightarrow> table option" where
  "kept_table p = (case p of Tables page_tables \<Rightarrow> pitchers_table page_tables | _ \<Rightarrow> None)"

definition skip_warning :: "nat \<Rightarrow> string \<Rightarrow> level \<times> string" where
  "skip_warning page_num e =
     (WARNING, ''Could not scrape DRatings page '' @ str_nat page_num @ '': '' @ e)"

definition page_log :: "(string \<Rightarrow> page_result) \<Rightarrow> string \<Rightarrow> nat \<Rightarrow> log" where
  "page_log fetch DRATINGS_URL page_num =
     (INFO, ''Scraping page '' @ str_nat page_num @ '': '' @ page_url DRATINGS_URL page_num)
     # (case fetch (page_url DRATINGS_URL page_num) of
          RequestFailed e \<Rightarrow> [skip_warning page_num e]
        | ParseFailed \<Rightarrow> []
        | Tables page_tables \<Rightarrow>
            (case pitchers_table page_tables of
               Some t \<Rightarrow> [(INFO, ''Found '' @ quoted_pitchers @ '' table on page ''
                             @ str_nat page_num @ ''.'')]
             | None \<Rightarrow> [(WARNING, ''Could not find a '' @ quoted_pitchers
                             @ '' table on page '' @ str_nat page_num @ ''.'')]))"

definition skip_warnings :: "log \<Rightarrow> log" where
  "skip_warnings lg =
     filter (\<lambda>m. fst m = WARNING \<and> prefix ''Could not scrape DRatings page '' (snd m)) lg"

definition skipped_pages :: "(string \<Rightarrow> page_result) \<Rightarrow> string \<Rightarrow> nat list \<Rightarrow> log" where
  "skipped_pages fetch DRATINGS_URL page_nums =
     List.map_filter (\<lambda>n. case fetch (page_url DRATINGS_URL n) of
                             RequestFailed e \<Rightarrow> Some (skip_warning n e)
                           | _ \<Rightarrow> None) page_nums"

definition clean_row :: "(cell \<Rightarrow> int option) \<Rightarrow> row \<Rightarrow> row" where
  "clean_row to_datetime_coerce r =
     (let r1 = filter (\<lambda>(c, v). c \<notin> set [''Pitchers'', ''Best ML'', ''Best Spread'', ''Best O/U'']) r;
          r2 = set_cell ''Teams''
                 (case cell_of r1 ''Teams'' of
                    Some (Text s) \<Rightarrow> Some (Text (str_replace ''Oakland Athletics'' ''Athletics'' s))
                  | _ \<Rightarrow> None) r1
      in set_cell ''Time''
           (map_option Instant (Option.bind (cell_of r2 ''Time'') to_datetime_coerce)) r2)"

text \<open>
  Example pages: the bare URL and page 1 each hold a table with the column
  \<open>Pitchers\<close>, with one game on both; the request for page 2 fails.
\<close>

definition example_row :: "string \<Rightarrow> string \<Rightarrow> row" where
  "example_row tm teams =
     [(''Time'', Text tm), (''Teams'', Text teams), (''Pitchers'', Text ''A. Able B. Baker''),
      (''Win'', Text ''40.0% 60.0%'')]"

definition example_to_datetime :: "cell \<Rightarrow> int option" where
  "example_to_datetime c =
     (case c of
        Text s \<Rightarrow> (if s = ''06/15/2025 07:05 PM'' then Some 1750028700
                    else if s = ''06/16/2025 01:10 PM'' then Some 1750093800 else None)
      | _ \<Rightarrow> None)"

definition example_fetch :: "string \<Rightarrow> page_result" where
  "example_fetch url =
     (if url = ''https://example.org/mlb/'' then
        Tables [\<lparr>columns = [''Rank'', ''Team''], rows = []\<rparr>,
                \<lparr>columns = [''Time'', ''Teams'', ''Pitchers'', ''Win''],
                 rows = [example_row ''06/16/2025 01:10 PM''
                           ''Oakland Athletics (30-40) Texas Rangers (36-34)'',
                         example_row ''06/15/2025 07:05 PM''
                           ''New York Yankees (40-30) Boston Red Sox (35-35)'']\<rparr>]
      else if url = ''https://example.org/mlb/upcoming/1'' then
        Tables [\<lparr>columns = [''Time'', ''Teams'', ''Pitchers'', ''Win''],
                 rows = [example_row ''06/16/2025 01:10 PM''
                           ''Oakland Athletics (30-40) Texas Rangers (36-34)'',
                         example_row ''TBD''
                           ''Chicago Cubs (41-29) Miami Marlins (28-42)'']\<rparr>]
      else RequestFailed ''504 Server Error: Gateway Time-out'')"

text \<open>The same pages, with a page 2 on which \<open>pd.read_html\<close> finds no table.\<close>

definition example_fetch_unparsable :: "string \<Rightarrow> page_result" where
  "example_fetch_unparsable url =
     (if url = ''https://example.org/mlb/upcoming/2'' then ParseFailed else example_fetch url)"

section \<open>The fixed-width table parser: \<open>scrape_tpt_data\<close>\<close>

text \<open>
  \<^verbatim>\<open>def scrape_tpt_data():\<close> of \<^verbatim>\<open>Football2025.py\<close>. What the request gives is
  either a \<open>RequestException\<close> with its message or a page, of which the function
  uses the text of the first \<open>pre\<close> element only (\<open>None\<close> when the page has none).
  A text is a list of characters; characters beyond one byte are outside the model.
\<close>

datatype tpt_response = TptRequestFailed string | TptPage "string option"

text \<open>\<open>str.find\<close>: the index of the first occurrence, \<open>None\<close> for Python's \<open>-1\<close>.\<close>

fun find_sub :: "string \<Rightarrow> string \<Rightarrow> nat option" where
  "find_sub needle [] = (if needle = [] then Some 0 else None)"
| "find_sub needle (c # cs) =
     (if prefix needle (c # cs) then Some 0 else map_option Suc (find_sub needle cs))"

text \<open>
  \<open>str.splitlines\<close>: a line ends at a line feed, a carriage return (with the
  line feed that follows it), or one of the other separators \<open>VT\<close>, \<open>FF\<close>,
  \<open>FS\<close>, \<open>GS\<close>, \<open>RS\<close>, \<open>NEL\<close>; a text that ends in a separator has no
  empty last line. The characters of the current line are collected in reverse.
\<close>

definition is_linebreak :: "char \<Rightarrow> bool" where
  "is_linebreak c =
     (c \<in> set [CHR 0x0A, CHR 0x0D, CHR 0x0B, CHR 0x0C, CHR 0x1C, CHR 0x1D, CHR 0x1E, CHR 0x85])"

fun splitlines_from :: "string \<Rightarrow> string \<Rightarrow> string list" where
  "splitlines_from cur [] = (if cur = [] then [] else [rev cur])"
| "splitlines_from cur (c # cs) =
     (if is_linebreak c then
        rev cur # (case cs of
                     d # ds \<Rightarrow> if c = CHR 0x0D \<and> d = CHR 0x0A then splitlines_from [] ds
                               else splitlines_from [] cs
                   | [] \<Rightarrow> splitlines_from [] cs)
      else splitlines_from (c # cur) cs)"

definition splitlines :: "string \<Rightarrow> string list" where
  "splitlines s = splitlines_from [] s"

text \<open>\<open>'\n'.join(lines)\<close>.\<close>

fun join_lines :: "string list \<Rightarrow> string" where
  "join_lines [] = []"
| "join_lines [l] = l"
| "join_lines (l # ls) = l @ [CHR 0x0A] @ join_lines ls"

text \<open>
  The lines \<open>pd.read_fwf\<close> reads from the \<open>StringIO\<close>: the text is cut at every
  line feed, and a text that ends in a line feed has no empty last line.
\<close>

fun lines_from :: "string \<Rightarrow> string \<Rightarrow> string list" where
  "lines_from cur [] = (if cur = [] then [] else [rev cur])"
| "lines_from cur (c # cs) =
     (if c = CHR 0x0A then rev cur # lines_from [] cs else lines_from (c # cur) cs)"

definition header_start :: string where
  "header_start = ''Home                Visitor''"

definition separator :: string where
  "separator = ''__________''"

definition col_specs :: "(nat \<times> nat) list" where
  "col_specs = [(0, 19), (19, 39), (39, 48), (48, 57), (57, 66), (66, 78), (78, 89),
     (89, 108), (108, 117), (117, 124), (124, 136), (136, 146)]"

definition col_names :: "string list" where
  "col_names = [''Home'', ''Visitor'', ''OpeningLine'', ''UpdatedLine'', ''MidweekLine'',
     ''PredictionAvg'', ''PredictionMedian'', ''PredictionStdDev'', ''PredictionMin'',
     ''PredictionMax'', ''ProbabilityWins'', ''ProbabilityCovers'']"

text \<open>
  \<open>pd.read_fwf(io.StringIO(table_text), colspecs=col_specs, names=col_names)\<close>. Every
  line is cut at the column positions and each field stripped of blanks, tabs and line
  ends; a line whose fields are all empty is skipped; a field that is one of pandas'
  markers of a missing value becomes \<open>NaN\<close>. With the names given, a text without a
  line gives the empty frame, not an exception. A row maps a column name to the text
  of its field; a name without a field is \<open>NaN\<close>. (pandas then turns a column whose
  fields all read as numbers into numbers, see \<open>is_text_column\<close> below; the model
  keeps the text of the field.)
\<close>

type_synonym fwf_row = "(string \<times> string) list"

definition na_values :: "string list" where
  "na_values = ['''', ''#N/A'', ''#N/A N/A'', ''#NA'', ''-1.#IND'', ''-1.#QNAN'', ''-NaN'',
     ''-nan'', ''1.#IND'', ''1.#QNAN'', ''<NA>'', ''N/A'', ''NA'', ''NULL'', ''NaN'', ''None'',
     ''n/a'', ''nan'', ''null'']"

definition cut_fields :: "string \<Rightarrow> string list" where
  "cut_fields line =
     map (\<lambda>(from, to). strip_chars [CHR 0x0A, CHR 0x0D, CHR 0x09, CHR '' '']
                          (take (to - from) (drop from line))) col_specs"

definition fields_row :: "string list \<Rightarrow> fwf_row" where
  "fields_row line_fields =
     filter (\<lambda>(name, field). field \<notin> set na_values) (zip col_names line_fields)"

definition read_fwf :: "string \<Rightarrow> fwf_row list" where
  "read_fwf table_text =
     map fields_row
       (filter (\<lambda>line_fields. list_ex (\<lambda>field. field \<noteq> []) line_fields)
          (map cut_fields (lines_from [] table_text)))"

text \<open>
  The text accessor \<open>.str\<close> raises \<open>AttributeError\<close> on a column that holds no
  text. pandas' reading of a field as a number is a parameter, \<open>numeric\<close>: the column
  of a frame with rows is a text column when one of its fields is present and is not
  read as a number; the columns of the empty frame are text columns.
\<close>

definition field_of :: "fwf_row \<Rightarrow> string \<Rightarrow> string option" where
  "field_of r c = map_of r c"

definition is_text_column :: "(string \<Rightarrow> bool) \<Rightarrow> string \<Rightarrow> fwf_row list \<Rightarrow> bool" where
  "is_text_column numeric c df =
     (df = [] \<or> list_ex (\<lambda>r. case field_of r c of Some s \<Rightarrow> \<not> numeric s | None \<Rightarrow> False) df)"

definition map_column :: "string \<Rightarrow> (string \<Rightarrow> string) \<Rightarrow> fwf_row list \<Rightarrow> fwf_row list" where
  "map_column c f df = map (map (\<lambda>(name, field). if name = c then (name, f field) else (name, field))) df"

definition str_strip_column ::
  "(string \<Rightarrow> bool) \<Rightarrow> fwf_row list \<Rightarrow> string \<Rightarrow> fwf_row list \<Rightarrow> py_error + fwf_row list" where
  "str_strip_column numeric parsed c df =
     (if is_text_column numeric c parsed then Inr (map_column c (strip_chars whitespace) df)
      else Inl AttributeError)"

definition TEAM_NAME_MAP :: "(string \<times> string) list" where
  "TEAM_NAME_MAP =
     [(''Arizona'', ''Arizona Cardinals''), (''Atlanta'', ''Atlanta Falcons''),
      (''Baltimore'', ''Baltimore Ravens''), (''Buffalo'', ''Buffalo Bills''),
      (''Carolina'', ''Carolina Panthers''), (''Chicago'', ''Chicago Bears''),
      (''Cincinnati'', ''Cincinnati Bengals''), (''Cleveland'', ''Cleveland Browns''),
      (''Dallas'', ''Dallas Cowboys''), (''Denver'', ''Denver Broncos''),
      (''Detroit'', ''Detroit Lions''), (''Green Bay'', ''Green Bay Packers''),
      (''Houston'', ''Houston Texans''), (''Indianapolis'', ''Indianapolis Colts''),
      (''Jacksonville'', ''Jacksonville Jaguars''), (''Kansas City'', ''Kansas City Chiefs''),
      (''Las Vegas'', ''Las Vegas Raiders''), (''LA Chargers'', ''Los Angeles Chargers''),
      (''LA Rams'', ''Los Angeles Rams''), (''Miami'', ''Miami Dolphins''),
      (''Minnesota'', ''Minnesota Vikings''), (''New England'', ''New England Patriots''),
      (''New Orleans'', ''New Orleans Saints''), (''N.Y. Giants'', ''New York Giants''),
      (''N.Y. Jets'', ''New York Jets''), (''Philadelphia'', ''Philadelphia Eagles''),
      (''Pittsburgh'', ''Pittsburgh Steelers''), (''San Francisco'', ''San Francisco 49ers''),
      (''Seattle'', ''Seattle Seahawks''), (''Tampa Bay'', ''Tampa Bay Buccaneers''),
      (''Tennessee'', ''Tennessee Titans''), (''Washington'', ''Washington Commanders''),
      (''Eagles'', ''Philadelphia Eagles''), (''Cowboys'', ''Dallas Cowboys''),
      (''Chargers'', ''Los Angeles Chargers''), (''Chiefs'', ''Kansas City Chiefs''),
      (''Colts'', ''Indianapolis Colts''), (''Dolphins'', ''Miami Dolphins''),
      (''Jets'', ''New York Jets''), (''Steelers'', ''Pittsburgh Steelers''),
      (''Giants'', ''New York Giants''), (''Falcons'', ''Atlanta Falcons''),
      (''Buccaneers'', ''Tampa Bay Buccaneers''), (''Saints'', ''New Orleans Saints''),
      (''Cardinals'', ''Arizona Cardinals''), (''Browns'', ''Cleveland Browns''),
      (''Bengals'', ''Cincinnati Bengals''), (''Jaguars'', ''Jacksonville Jaguars''),
      (''Panthers'', ''Carolina Panthers''), (''Patriots'', ''New England Patriots''),
      (''Raiders'', ''Las Vegas Raiders''), (''Broncos'', ''Denver Broncos''),
      (''Titans'', ''Tennessee Titans''), (''Seahawks'', ''Seattle Seahawks''),
      (''Niners'', ''San Francisco 49ers''), (''Rams'', ''Los Angeles Rams''),
      (''Texans'', ''Houston Texans''), (''Packers'', ''Green Bay Packers''),
      (''Lions'', ''Detroit Lions''), (''Bills'', ''Buffalo Bills''),
      (''Ravens'', ''Baltimore Ravens''), (''Bears'', ''Chicago Bears''),
      (''Vikings'', ''Minnesota Vikings'')]"

text \<open>\<open>Series.replace(TEAM_NAME_MAP)\<close>: a name of the table is replaced, any other kept.\<close>

definition replace_team :: "string \<Rightarrow> string" where
  "replace_team s = (case map_of TEAM_NAME_MAP s of Some full \<Rightarrow> full | None \<Rightarrow> s)"

definition add_matchup :: "fwf_row \<Rightarrow> fwf_row" where
  "add_matchup r =
     (case (field_of r ''Visitor'', field_of r ''Home'') of
        (Some v, Some h) \<Rightarrow> r @ [(''Matchup'', v @ '' at '' @ h)]
      | _ \<Rightarrow> r)"

text \<open>
  The part of the function after the two tests: the table text, the parsing, and the
  cleaning, in which the two uses of \<open>.str\<close> can raise.
\<close>

definition after_header :: "string \<Rightarrow> nat \<Rightarrow> string" where
  "after_header full_text table_start_index =
     join_lines (drop 2 (splitlines (drop table_start_index full_text)))"

definition before_separator :: "string \<Rightarrow> string" where
  "before_separator table_text =
     (case find_sub separator table_text of
        Some i \<Rightarrow> take i table_text
      | None \<Rightarrow> table_text)"

definition parse_table :: "(string \<Rightarrow> bool) \<Rightarrow> string \<Rightarrow> py_error + fwf_row list" where
  "parse_table numeric table_text =
     (let parsed = read_fwf table_text;
          df = filter (\<lambda>r. r \<noteq> []) parsed
      in case str_strip_column numeric parsed ''Home'' df of
           Inl e \<Rightarrow> Inl e
         | Inr df1 \<Rightarrow>
             (case str_strip_column numeric parsed ''Visitor'' df1 of
                Inl e \<Rightarrow> Inl e
              | Inr df2 \<Rightarrow>
                  Inr (map add_matchup
                         (map_column ''Visitor'' replace_team
                            (map_column ''Home'' replace_team df2)))))"

text \<open>The text of the exceptions that the model raises, for the log.\<close>

fun exception_text :: "py_error \<Rightarrow> string" where
  "exception_text AttributeError = ''Can only use .str accessor with string values!''"
| "exception_text ZeroDivisionError = ''float division by zero''"
| "exception_text ValueError = ''ValueError''"
| "exception_text TypeError = ''TypeError''"
| "exception_text KeyError = ''KeyError''"
| "exception_text ParseError = ''ParseError''"

text \<open>
  The function: its value (\<open>None\<close>, or the frame as the list of its rows) and the
  log it has written. Both handlers return \<open>None\<close>; the second catches every
  \<open>Exception\<close>, so none escapes.
\<close>

definition scrape_tpt_data ::
  "(string \<Rightarrow> bool) \<Rightarrow> tpt_response \<Rightarrow> fwf_row list option \<times> log" where
  "scrape_tpt_data numeric response =
     (case response of
        TptRequestFailed e \<Rightarrow> (None, [(WARNING, ''Could not scrape TPT page: '' @ e)])
      | TptPage None \<Rightarrow> (None, [(ERROR, ''Could not find a <pre> tag on the page.'')])
      | TptPage (Some full_text) \<Rightarrow>
          (case find_sub header_start full_text of
             None \<Rightarrow>
               (None, [(ERROR, ''Could not find the data table header in the <pre> tag.'')])
           | Some table_start_index \<Rightarrow>
               (case parse_table numeric
                       (before_separator (after_header full_text table_start_index)) of
                  Inl e \<Rightarrow>
                    (None, [(ERROR, ''An error occurred while parsing the data: ''
                                      @ exception_text e)])
                | Inr df \<Rightarrow>
                    (Some df, [(INFO, ''Successfully parsed '' @ str_nat (length df)
                                       @ '' rows of data.'')]))))"

text \<open>
  The test of \<open>main\<close> on the value, \<open>tpt_df is not None and not tpt_df.empty\<close>; when
  it fails \<open>main\<close> logs that the sheet is skipped "due to scraping failure or no data".
\<close>

definition has_data :: "fwf_row list option \<Rightarrow> bool" where
  "has_data tpt_df = (case tpt_df of None \<Rightarrow> False | Some df \<Rightarrow> df \<noteq> [])"

subsection \<open>Example pages for the parser\<close>

text \<open>
  The text of a \<open>pre\<close> element: a title, the header line and a rule, two games, and
  the separator before a note. Then the same text without the separator and the note,
  and a text whose table has no game.
\<close>

definition example_pre_lines :: "string list" where
  "example_pre_lines =
     [''NFL Week 1 predictions'',
      '''',
      ''Home                Visitor            Opening  Updated  Midweek'',
      ''------------------------------------------------------------------'',
      ''N.Y. Jets          Buffalo             -3.5     -3.0     -3.0     -2.85       -3.00      1.20               -5.0     -1.0   0.58        0.49'',
      ''Dallas             Eagles              1.5      2.0               2.10        2.00       0.95               0.5      4.0    0.44        0.51'']"

definition example_pre_text :: string where
  "example_pre_text =
     join_lines (example_pre_lines @ ['''', ''____________________'', ''Lines as of Monday''])"

definition example_pre_text_open :: string where
  "example_pre_text_open = join_lines example_pre_lines"

definition example_pre_text_empty :: string where
  "example_pre_text_empty =
     join_lines (take 4 example_pre_lines @ ['''', ''____________________'', ''No games'']) "

text \<open>A reading of fields as numbers that suffices for the examples: signed decimals.\<close>

definition example_numeric :: "string \<Rightarrow> bool" where
  "example_numeric s = (s \<noteq> [] \<and> list_all (\<lambda>c. c \<in> set ''0123456789.-+'') s)"

section \<open>Loops that can raise\<close>

lemma try_map_total: "(\<And>x. x \<in> set xs \<Longrightarrow> f x = Inr (h x)) \<Longrightarrow> try_map f xs = Inr (map h xs)"
  by (induction xs) auto

lemma try_map_Inr_iff: "try_map f xs = Inr ys \<longleftrightarrow> list_all2 (\<lambda>x y. f x = Inr y) xs ys"
proof (induction xs arbitrary: ys)
  case Nil
  then show ?case by auto
next
  case (Cons x xs)
  show ?case
    by (cases ys) (auto simp: Cons.IH[symmetric] split: sum.splits)
qed


section \<open>Properties of the odds converters\<close>

lemma convert_to_american_odds_high:
  "2 \<le> d \<Longrightarrow> convert_to_american_odds (PyNum d) = Inr (Some (d * 100 - 100))"
  by (simp add: convert_to_american_odds_def)

lemma convert_to_american_odds_low:
  "d < 2 \<Longrightarrow> d \<noteq> 1 \<Longrightarrow> convert_to_american_odds (PyNum d) = Inr (Some (- 100 / (d - 1)))"
  by (simp add: convert_to_american_odds_def py_div_def)

lemma convert_to_american_odds_no_number:
  "pd_isna x \<or> \<not> is_int_or_float x \<Longrightarrow> convert_to_american_odds x = Inr None"
  by (simp add: convert_to_american_odds_def)

text \<open>
  Claim C4, as stated, has the function return \<open>-100 / (d - 1)\<close> for every \<open>d\<close> with
  \<open>1.0 \<le> d < 2.0\<close>. At \<open>d = 1.0\<close> the divisor is zero and the Python division
  raises \<open>ZeroDivisionError\<close>: the function returns nothing there.
\<close>

theorem decimal_one_raises:
  "(1::real) \<le> 1 \<and> (1::real) < 2
   \<and> convert_to_american_odds (PyNum 1) = Inl ZeroDivisionError
   \<and> convert_to_american_odds (PyNum 1) \<noteq> Inr (Some (- 100 / (1 - 1)))"
  by (simp add: convert_to_american_odds_def py_div_def)

text \<open>
  Claim C4, amended: \<open>convert_to_american_odds\<close> returns \<open>None\<close> when its input is
  missing (\<open>None\<close>, \<open>nan\<close>) or is no number; for every \<open>d \<ge> 2.0\<close> it returns
  \<open>(d * 100) - 100\<close>; for every \<open>d < 2.0\<close> other than \<open>1.0\<close>, so for every \<open>d\<close>
  with \<open>1.0 < d < 2.0\<close>, it returns \<open>-100 / (d - 1)\<close>; and the boundary \<open>d = 2.0\<close>
  takes the first branch and gives \<open>100\<close>.
\<close>

theorem convert_to_american_odds_cases:
  "(pd_isna x \<or> \<not> is_int_or_float x \<longrightarrow> convert_to_american_odds x = Inr None)
   \<and> (2 \<le> d \<longrightarrow> convert_to_american_odds (PyNum d) = Inr (Some (d * 100 - 100)))
   \<and> (d' < 2 \<and> d' \<noteq> 1 \<longrightarrow>
        convert_to_american_odds (PyNum d') = Inr (Some (- 100 / (d' - 1))))
   \<and> convert_to_american_odds (PyNum 2) = Inr (Some 100)"
  using convert_to_american_odds_high [of 2]
  by (simp add: convert_to_american_odds_high convert_to_american_odds_low
      convert_to_american_odds_no_number)

theorem convert_to_american_odds_cases_witness:
  "(pd_isna (PyText ''n/a'' None) \<or> \<not> is_int_or_float (PyText ''n/a'' None))
   \<and> convert_to_american_odds (PyText ''n/a'' None) = Inr None
   \<and> (2::real) \<le> 41 / 20 \<and> convert_to_american_odds (PyNum (41 / 20)) = Inr (Some 105)
   \<and> (191 / 100 :: real) < 2 \<and> (191 / 100 :: real) \<noteq> 1
   \<and> convert_to_american_odds (PyNum (191 / 100)) = Inr (Some (- (10000 / 91)))"
  using convert_to_american_odds_cases [of "PyText ''n/a'' None" "41 / 20" "191 / 100"]
  by simp

lemma convert_to_american_odds_fl_exact:
  "convert_to_american_odds_fl (\<lambda>x. x) d = convert_to_american_odds (PyNum d)"
  by (simp add: convert_to_american_odds_fl_def convert_to_american_odds_def py_div_def)

lemma convert_american_to_decimal_fl_exact:
  "convert_american_to_decimal_fl (\<lambda>x. x) a = convert_american_to_decimal (PyNum a)"
  by (simp add: convert_american_to_decimal_fl_def convert_american_to_decimal_def py_div_def)

lemma rounds_withinD:
  assumes "rounds_within u rnd" "1 / 2 \<le> \<bar>x\<bar>" "\<bar>x\<bar> \<le> 20000"
  shows "\<bar>rnd x - x\<bar> \<le> u * \<bar>x\<bar>"
  using assms by (simp add: rounds_within_def)

lemma rounded_round_trip:
  assumes r: "rounds_within u rnd" and u: "0 \<le> u" "u \<le> 1 / 1000"
    and d: "2 \<le> d" "d \<le> 100"
  shows "0 < rnd (rnd (d * 100) - 100)"
    and "\<bar>rnd (rnd (rnd (rnd (d * 100) - 100) / 100) + 1) - d\<bar> \<le> 5 * u * d"
proof -
  define ud where "ud = u * d"
  have ud: "0 \<le> ud" "ud \<le> 1 / 10"
  proof -
    show "0 \<le> ud" using u d by (simp add: ud_def)
    have "u * d \<le> (1 / 1000) * 100"
      using u d by (intro mult_mono) auto
    then show "ud \<le> 1 / 10" by (simp add: ud_def)
  qed
  define s1 where "s1 = rnd (d * 100)"
  define t where "t = s1 - 100"
  define s2 where "s2 = rnd t"
  define q where "q = s2 / 100"
  define s3 where "s3 = rnd q"
  define w where "w = s3 + 1"
  have e1: "\<bar>s1 - d * 100\<bar> \<le> 100 * ud"
  proof -
    have "\<bar>rnd (d * 100) - d * 100\<bar> \<le> u * \<bar>d * 100\<bar>"
      using d by (intro rounds_withinD [OF r]) auto
    with d show ?thesis by (simp add: s1_def ud_def abs_mult mult_ac)
  qed
  then have t1: "\<bar>t - (d * 100 - 100)\<bar> \<le> 100 * ud"
    by (simp add: t_def)
  from t1 ud d have t_lo: "90 \<le> t" and t_hi: "t \<le> 100 * d + 10 - 100"
    by (auto simp: abs_le_iff)
  have e2: "\<bar>s2 - t\<bar> \<le> 100 * ud"
  proof -
    have "\<bar>rnd t - t\<bar> \<le> u * \<bar>t\<bar>"
      using t_lo t_hi d by (intro rounds_withinD [OF r]) auto
    also have "u * \<bar>t\<bar> \<le> u * (100 * d)"
      using t_lo t_hi u by (intro mult_left_mono) auto
    finally show ?thesis by (simp add: s2_def ud_def mult_ac)
  qed
  from e2 t1 have s2: "\<bar>s2 - (d * 100 - 100)\<bar> \<le> 200 * ud"
    by (auto simp: abs_le_iff)
  with ud d show "0 < rnd (rnd (d * 100) - 100)"
    by (auto simp: s2_def t_def s1_def abs_le_iff)
  from s2 have q1: "\<bar>q - (d - 1)\<bar> \<le> 2 * ud"
    by (auto simp: q_def abs_le_iff field_simps)
  from q1 ud d have q_lo: "4 / 5 \<le> q" and q_hi: "q \<le> d"
    by (auto simp: abs_le_iff)
  have e3: "\<bar>s3 - q\<bar> \<le> ud"
  proof -
    have "\<bar>rnd q - q\<bar> \<le> u * \<bar>q\<bar>"
      using q_lo q_hi d by (intro rounds_withinD [OF r]) auto
    also have "u * \<bar>q\<bar> \<le> u * d"
      using q_lo q_hi u by (intro mult_left_mono) auto
    finally show ?thesis by (simp add: s3_def ud_def)
  qed
  from e3 q1 have w1: "\<bar>w - d\<bar> \<le> 3 * ud"
    by (auto simp: w_def abs_le_iff)
  from w1 ud d have w_lo: "17 / 10 \<le> w" and w_hi: "w \<le> d + 3 * ud"
    by (auto simp: abs_le_iff)
  have e4: "\<bar>rnd w - w\<bar> \<le> 2 * ud"
  proof -
    have "\<bar>rnd w - w\<bar> \<le> u * \<bar>w\<bar>"
      using w_lo w_hi d ud by (intro rounds_withinD [OF r]) auto
    also have "u * \<bar>w\<bar> \<le> u * (2 * d)"
      using w_lo w_hi u ud d by (intro mult_left_mono) auto
    finally show ?thesis by (simp add: ud_def)
  qed
  from e4 w1 have "\<bar>rnd w - d\<bar> \<le> 5 * ud"
    by (auto simp: abs_le_iff)
  then show "\<bar>rnd (rnd (rnd (rnd (d * 100) - 100) / 100) + 1) - d\<bar> \<le> 5 * u * d"
    by (simp add: w_def s3_def q_def s2_def t_def s1_def ud_def)
qed

text \<open>
  Claim C5: for every decimal odds \<open>d\<close> with \<open>2.0 \<le> d \<le> 100\<close>,
  \<open>convert_to_american_odds\<close> returns \<open>(d * 100) - 100\<close>, and
  \<open>convert_american_to_decimal\<close> takes that value back to \<open>d\<close>: exactly in exact
  arithmetic, and within the tolerance \<open>5 * u * d\<close> when every operation is rounded
  with relative error at most \<open>u \<le> 1/1000\<close> (the positive branch is taken in both
  cases).
\<close>

theorem odds_round_trip:
  assumes "2 \<le> d" and "d \<le> 100"
  shows "convert_to_american_odds (PyNum d) = Inr (Some (d * 100 - 100))
     \<and> convert_american_to_decimal (PyNum (d * 100 - 100)) = Inr (Some d)
     \<and> (\<forall>u rnd. rounds_within u rnd \<and> 0 \<le> u \<and> u \<le> 1 / 1000 \<longrightarrow>
           (\<exists>a d'. convert_to_american_odds_fl rnd d = Inr (Some a)
              \<and> a = rnd (rnd (d * 100) - 100)
              \<and> convert_american_to_decimal_fl rnd a = Inr (Some d')
              \<and> \<bar>d' - d\<bar> \<le> 5 * u * d))"
proof -
  from assms(1) have pos: "0 < d * 100 - 100" by simp
  have "(d * 100 - 100) / 100 + 1 = d" by (simp add: field_simps)
  with pos assms(1) have exact: "convert_to_american_odds (PyNum d) = Inr (Some (d * 100 - 100))
     \<and> convert_american_to_decimal (PyNum (d * 100 - 100)) = Inr (Some d)"
    by (simp add: convert_to_american_odds_high convert_american_to_decimal_def)
  have rounded: "\<exists>a d'. convert_to_american_odds_fl rnd d = Inr (Some a)
              \<and> a = rnd (rnd (d * 100) - 100)
              \<and> convert_american_to_decimal_fl rnd a = Inr (Some d')
              \<and> \<bar>d' - d\<bar> \<le> 5 * u * d"
    if "rounds_within u rnd" "0 \<le> u" "u \<le> 1 / 1000" for u rnd
    using rounded_round_trip [OF that assms] assms(1)
    by (simp add: convert_to_american_odds_fl_def convert_american_to_decimal_fl_def)
  from exact rounded show ?thesis by blast
qed

lemma example_rnd_rounds: "rounds_within (1 / 2 ^ 53) example_rnd"
  by (simp add: rounds_within_def example_rnd_def algebra_simps abs_mult)

theorem odds_round_trip_witness:
  "(2::real) \<le> 5 / 2 \<and> (5 / 2 :: real) \<le> 100
   \<and> convert_to_american_odds (PyNum (5 / 2)) = Inr (Some 150)
   \<and> convert_american_to_decimal (PyNum 150) = Inr (Some (5 / 2))
   \<and> rounds_within (1 / 2 ^ 53) example_rnd
   \<and> (\<exists>a d'. convert_to_american_odds_fl example_rnd (5 / 2) = Inr (Some a)
         \<and> convert_american_to_decimal_fl example_rnd a = Inr (Some d')
         \<and> \<bar>d' - 5 / 2\<bar> \<le> 5 * (1 / 2 ^ 53) * (5 / 2))"
proof -
  have u: "(0::real) \<le> 1 / 2 ^ 53" "(1 / 2 ^ 53 :: real) \<le> 1 / 1000"
    by simp_all
  have t: "convert_to_american_odds (PyNum (5 / 2)) = Inr (Some (5 / 2 * 100 - 100))
     \<and> convert_american_to_decimal (PyNum (5 / 2 * 100 - 100)) = Inr (Some (5 / 2))
     \<and> (\<forall>u rnd. rounds_within u rnd \<and> 0 \<le> u \<and> u \<le> 1 / 1000 \<longrightarrow>
           (\<exists>a d'. convert_to_american_odds_fl rnd (5 / 2) = Inr (Some a)
              \<and> a = rnd (rnd (5 / 2 * 100) - 100)
              \<and> convert_american_to_decimal_fl rnd a = Inr (Some d')
              \<and> \<bar>d' - 5 / 2\<bar> \<le> 5 * u * (5 / 2)))"
    by (rule odds_round_trip) simp_all
  then have r: "\<exists>a d'. convert_to_american_odds_fl example_rnd (5 / 2) = Inr (Some a)
         \<and> convert_american_to_decimal_fl example_rnd a = Inr (Some d')
         \<and> \<bar>d' - 5 / 2\<bar> \<le> 5 * (1 / 2 ^ 53) * (5 / 2)"
    using example_rnd_rounds u by blast
  from t have e: "convert_to_american_odds (PyNum (5 / 2)) = Inr (Some 150)
     \<and> convert_american_to_decimal (PyNum 150) = Inr (Some (5 / 2))"
    by simp
  from e r example_rnd_rounds show ?thesis
    by simp
qed

text \<open>
  Claim C6: on the input \<open>0\<close>, \<open>convert_american_to_decimal\<close> raises
  \<open>ZeroDivisionError\<close> (which its handler does not catch); it returns no value, so no
  infinite decimal odds. The same holds for a text that \<open>float()\<close> reads as \<open>0\<close>.
\<close>

theorem american_zero_raises:
  "convert_american_to_decimal (PyNum 0) = Inl ZeroDivisionError
   \<and> convert_american_to_decimal (PyText ''0'' (Some 0)) = Inl ZeroDivisionError"
  by (simp add: convert_american_to_decimal_def py_div_def)

section \<open>Properties of the odds feed scraper\<close>

lemma convert_decimal_price:
  "decimal_price v \<Longrightarrow> convert_to_american_odds (cell_obj v) = Inr (american_of v)"
  by (cases v) (auto simp: decimal_price_def convert_to_american_odds_def american_of_def py_div_def)

lemma american_differs_from_decimal:
  assumes "1 < d"
  shows "american_of (Some d) \<noteq> Some d"
proof (cases "2 \<le> d")
  case True
  then show ?thesis by (simp add: american_of_def)
next
  case False
  from assms have "0 < 100 / (d - 1)" by simp
  with assms have "- (100 / (d - 1)) \<noteq> d" by linarith
  with False show ?thesis by (simp add: american_of_def)
qed

lemma valid_american_of: "decimal_price v \<Longrightarrow> valid_american (american_of v)"
proof (cases v)
  case None
  then show ?thesis by (simp add: american_of_def valid_american_def)
next
  case (Some d)
  assume "decimal_price v"
  with Some have d: "1 < d" by (simp add: decimal_price_def)
  show ?thesis
  proof (cases "2 \<le> d")
    case True
    with Some show ?thesis by (simp add: american_of_def valid_american_def)
  next
    case False
    with d have "0 < d - 1" "d - 1 < 1" by simp_all
    then have "100 < 100 / (d - 1)"
      by (simp add: field_simps)
    with False Some d show ?thesis by (simp add: american_of_def valid_american_def)
  qed
qed

lemma money_line_raw_ok: "raw_ok g \<Longrightarrow> decimal_price (price s) \<Longrightarrow> raw_ok (money_line_selection g s)"
  by (simp add: raw_ok_def price_fields_def money_line_selection_def)

lemma run_line_raw_ok: "raw_ok g \<Longrightarrow> decimal_price (price s) \<Longrightarrow> raw_ok (run_line_selection g s)"
  by (simp add: raw_ok_def price_fields_def run_line_selection_def)

lemma total_runs_raw_ok: "raw_ok g \<Longrightarrow> decimal_price (price s) \<Longrightarrow> raw_ok (total_runs_selection g s)"
  by (simp add: raw_ok_def price_fields_def total_runs_selection_def)

lemma foldl_raw_ok:
  assumes "\<And>g s. raw_ok g \<Longrightarrow> decimal_price (price s) \<Longrightarrow> raw_ok (f g s)"
  shows "raw_ok g \<Longrightarrow> list_all (\<lambda>s. decimal_price (price s)) ss \<Longrightarrow> raw_ok (foldl f g ss)"
  by (induction ss arbitrary: g) (auto simp: assms)

lemma process_market_raw_ok:
  "raw_ok g \<Longrightarrow> list_all (\<lambda>s. decimal_price (price s)) (selections m) \<Longrightarrow> raw_ok (process_market g m)"
  by (simp add: process_market_def Let_def foldl_raw_ok money_line_raw_ok run_line_raw_ok total_runs_raw_ok)

lemma foldl_market_raw_ok:
  "raw_ok g \<Longrightarrow> list_all (\<lambda>m. list_all (\<lambda>s. decimal_price (price s)) (selections m)) ms
     \<Longrightarrow> raw_ok (foldl process_market g ms)"
  by (induction ms arbitrary: g) (auto simp: process_market_raw_ok)

lemma process_event_raw_ok:
  assumes "prices_decimal ev" "tsstart ev \<noteq> TsInvalid"
  shows "\<exists>g. process_event ev = Inr g \<and> raw_ok g"
proof -
  obtain t where t: "to_datetime (tsstart ev) = Inr t"
    using assms(2) by (cases "tsstart ev") auto
  have "raw_ok \<lparr>Sport = sportname ev, GameStart = t, Game = externaldescription ev,
             AwayTeam = shortnameaway ev, HomeTeam = shortnamehome ev,
             Away_MLOdds = None, Home_MLOdds = None, HomeSpread = None,
             AwaySpreadOdds = None, HomeSpreadOdds = None, UnderOdds = None,
             OverOdds = None, Handicap = None\<rparr>"
    by (simp add: raw_ok_def price_fields_def decimal_price_def)
  then show ?thesis
    using assms(1) t by (simp add: process_event_def prices_decimal_def foldl_market_raw_ok)
qed

lemma try_map_process_event:
  "list_all prices_decimal evs \<Longrightarrow> list_all (\<lambda>ev. tsstart ev \<noteq> TsInvalid) evs \<Longrightarrow>
   \<exists>gs. try_map process_event evs = Inr gs \<and> length gs = length evs \<and> list_all raw_ok gs"
proof (induction evs)
  case Nil
  then show ?case by simp
next
  case (Cons ev evs)
  then obtain g where "process_event ev = Inr g" "raw_ok g"
    using process_event_raw_ok by auto
  moreover from Cons obtain gs where "try_map process_event evs = Inr gs" "length gs = length evs" "list_all raw_ok gs"
    by auto
  ultimately show ?case by simp
qed

lemma convert_column_ok:
  "list_all (\<lambda>g. decimal_price (sel g)) df \<Longrightarrow>
   convert_column sel upd df = Inr (map (\<lambda>g. upd (american_of (sel g)) g) df)"
  unfolding convert_column_def
  by (rule try_map_total) (simp add: convert_decimal_price list_all_iff)

lemma convert_columns_ok:
  assumes "list_all raw_ok df"
  shows "convert_columns odds_cols df = Inr (map convert_row df)"
proof -
  have r: "list_all (\<lambda>g. decimal_price (Away_MLOdds g) \<and> decimal_price (Home_MLOdds g)
      \<and> decimal_price (HomeSpreadOdds g) \<and> decimal_price (AwaySpreadOdds g)
      \<and> decimal_price (OverOdds g) \<and> decimal_price (UnderOdds g)) df"
    using assms by (simp add: list_all_iff raw_ok_def price_fields_def)
  show ?thesis
    unfolding odds_cols_def
    using r
    by (simp add: convert_column_ok list.pred_map o_def convert_row_def list_all_iff)
qed

lemma convert_row_valid: "raw_ok g \<Longrightarrow> list_all valid_american (price_fields (convert_row g))"
  by (simp add: raw_ok_def price_fields_def convert_row_def valid_american_of)

text \<open>
  Claim C7: for a feed whose market prices are decimal odds strictly greater than
  \<open>1.0\<close> (or missing) and whose start times \<open>pd.to_datetime\<close> accepts,
  \<open>scrape_sbri_data\<close> returns one record per event, and every price field of every
  record is missing or an American price of magnitude at least \<open>100\<close>, so never
  zero; and the conversion leaves no decimal price as it was (lemma
  \<open>american_differs_from_decimal\<close>).
\<close>

theorem sbri_price_fields_valid:
  assumes "list_all prices_decimal events" "list_all (\<lambda>ev. tsstart ev \<noteq> TsInvalid) events"
  shows "\<exists>df. scrape_sbri_data (SbriEvents events) = Inr (Some df) \<and> length df = length events
     \<and> list_all (\<lambda>g. list_all valid_american (price_fields g)) df"
proof -
  obtain gs where gs: "try_map process_event events = Inr gs" "length gs = length events" "list_all raw_ok gs"
    using try_map_process_event[OF assms] by blast
  show ?thesis
  proof (cases "gs = []")
    case True
    with gs show ?thesis by (simp add: scrape_sbri_data_def)
  next
    case False
    have "list_all (\<lambda>g. list_all valid_american (price_fields g)) (map convert_row gs)"
      using gs(3) convert_row_valid by (auto simp: list_all_iff)
    then have "list_all (\<lambda>g. list_all valid_american (price_fields g)) (sort_key sbri_sort_key (map convert_row gs))"
      by (simp add: list_all_iff)
    with False gs show ?thesis
      by (simp add: scrape_sbri_data_def convert_columns_ok)
  qed
qed

theorem sbri_price_fields_valid_witness:
  "list_all prices_decimal [example_event]
   \<and> list_all (\<lambda>ev. tsstart ev \<noteq> TsInvalid) [example_event]
   \<and> scrape_sbri_data (SbriEvents [example_event]) = Inr (Some
        [\<lparr>Sport = Some ''Baseball'', GameStart = Some 1750000000,
          Game = Some ''New York Yankees at Boston Red Sox'',
          AwayTeam = Some ''New York Yankees'', HomeTeam = Some ''Boston Red Sox'',
          Away_MLOdds = Some 105, Home_MLOdds = Some (- (10000 / 91)),
          HomeSpread = None, AwaySpreadOdds = None, HomeSpreadOdds = None,
          UnderOdds = Some (- 125), OverOdds = Some 100, Handicap = Some (17 / 2)\<rparr>])
   \<and> list_all (\<lambda>g. list_all valid_american (price_fields g))
        [\<lparr>Sport = Some ''Baseball'', GameStart = Some 1750000000,
          Game = Some ''New York Yankees at Boston Red Sox'',
          AwayTeam = Some ''New York Yankees'', HomeTeam = Some ''Boston Red Sox'',
          Away_MLOdds = Some 105, Home_MLOdds = Some (- (10000 / 91)),
          HomeSpread = None, AwaySpreadOdds = None, HomeSpreadOdds = None,
          UnderOdds = Some (- 125), OverOdds = Some 100, Handicap = Some (17 / 2)\<rparr>]"
proof -
  have p: "list_all prices_decimal [example_event]"
    by (simp add: prices_decimal_def example_event_def decimal_price_def)
  have t: "list_all (\<lambda>ev. tsstart ev \<noteq> TsInvalid) [example_event]"
    by (simp add: example_event_def)
  have s: "scrape_sbri_data (SbriEvents [example_event]) = Inr (Some
        [\<lparr>Sport = Some ''Baseball'', GameStart = Some 1750000000,
          Game = Some ''New York Yankees at Boston Red Sox'',
          AwayTeam = Some ''New York Yankees'', HomeTeam = Some ''Boston Red Sox'',
          Away_MLOdds = Some 105, Home_MLOdds = Some (- (10000 / 91)),
          HomeSpread = None, AwaySpreadOdds = None, HomeSpreadOdds = None,
          UnderOdds = Some (- 125), OverOdds = Some 100, Handicap = Some (17 / 2)\<rparr>])"
    by (simp add: scrape_sbri_data_def example_event_def process_event_def process_market_def
        money_line_selection_def run_line_selection_def total_runs_selection_def odds_cols_def
        convert_column_def convert_to_american_odds_def py_div_def)
  from sbri_price_fields_valid [OF p t] s p t show ?thesis
    by auto
qed

text \<open>
  The conversion never returns zero, so no moneyline of a frame that
  \<open>scrape_sbri_data\<close> returns is zero: the reconciliation meets no division by zero
  on such a frame, whatever the feed held.
\<close>

lemma american_odds_nonzero:
  assumes "convert_to_american_odds x = Inr (Some a)"
  shows "a \<noteq> 0"
proof (cases x)
  case (PyNum d)
  show ?thesis
  proof (cases "2 \<le> d")
    case True
    with assms PyNum show ?thesis by (simp add: convert_to_american_odds_def)
  next
    case False
    with assms PyNum show ?thesis
      by (auto simp: convert_to_american_odds_def py_div_def split: if_splits)
  qed
qed (use assms in \<open>simp_all add: convert_to_american_odds_def\<close>)

lemma convert_column_invariant:
  assumes "convert_column sel upd df = Inr df'"
    and "list_all Q df"
    and "\<And>g v. Q g \<Longrightarrow> convert_to_american_odds (cell_obj (sel g)) = Inr v \<Longrightarrow> P (upd v g)"
  shows "list_all P df'"
proof -
  from assms(1) have "list_all2 (\<lambda>g g'. (case convert_to_american_odds (cell_obj (sel g)) of
                      Inl e \<Rightarrow> Inl e | Inr v \<Rightarrow> Inr (upd v g)) = Inr g') df df'"
    by (simp add: convert_column_def try_map_Inr_iff)
  then show ?thesis
    using assms(2)
  proof (induction rule: list_all2_induct)
    case Nil
    then show ?case by simp
  next
    case (Cons g gs g' gs')
    then show ?case
      by (auto split: sum.splits intro: assms(3))
  qed
qed

lemma convert_columns_nonzero:
  assumes "convert_columns odds_cols df = Inr df'"
  shows "list_all moneylines_nonzero df'"
proof -
  from assms obtain d1 d2 d3 d4 d5 where
    c1: "convert_column Away_MLOdds (\<lambda>v g. g\<lparr>Away_MLOdds := v\<rparr>) df = Inr d1" and
    c2: "convert_column Home_MLOdds (\<lambda>v g. g\<lparr>Home_MLOdds := v\<rparr>) d1 = Inr d2" and
    c3: "convert_column HomeSpreadOdds (\<lambda>v g. g\<lparr>HomeSpreadOdds := v\<rparr>) d2 = Inr d3" and
    c4: "convert_column AwaySpreadOdds (\<lambda>v g. g\<lparr>AwaySpreadOdds := v\<rparr>) d3 = Inr d4" and
    c5: "convert_column OverOdds (\<lambda>v g. g\<lparr>OverOdds := v\<rparr>) d4 = Inr d5" and
    c6: "convert_column UnderOdds (\<lambda>v g. g\<lparr>UnderOdds := v\<rparr>) d5 = Inr df'"
    by (auto simp: odds_cols_def split: sum.splits)
  have "list_all (\<lambda>g. True) df" by (simp add: list_all_iff)
  with c1 have "list_all away_nonzero d1"
    by (rule convert_column_invariant) (auto simp: away_nonzero_def dest: american_odds_nonzero)
  with c2 have "list_all moneylines_nonzero d2"
    by (rule convert_column_invariant)
       (auto simp: away_nonzero_def moneylines_nonzero_def dest: american_odds_nonzero)
  with c3 have "list_all moneylines_nonzero d3"
    by (rule convert_column_invariant) (simp add: moneylines_nonzero_def)
  with c4 have "list_all moneylines_nonzero d4"
    by (rule convert_column_invariant) (simp add: moneylines_nonzero_def)
  with c5 have "list_all moneylines_nonzero d5"
    by (rule convert_column_invariant) (simp add: moneylines_nonzero_def)
  with c6 show ?thesis
    by (rule convert_column_invariant) (simp add: moneylines_nonzero_def)
qed

lemma scraped_moneylines_nonzero:
  assumes "scrape_sbri_data response = Inr (Some df)"
  shows "list_all (\<lambda>g. Home_MLOdds g \<noteq> Some 0 \<and> Away_MLOdds g \<noteq> Some 0) df"
proof (cases response)
  case (SbriEvents events)
  show ?thesis
  proof (cases "try_map process_event events")
    case (Inl e)
    with assms SbriEvents show ?thesis by (simp add: scrape_sbri_data_def)
  next
    case (Inr processed_rows)
    show ?thesis
    proof (cases "processed_rows = []")
      case True
      with assms SbriEvents Inr show ?thesis by (simp add: scrape_sbri_data_def)
    next
      case False
      with assms SbriEvents Inr obtain d where
        d: "convert_columns odds_cols processed_rows = Inr d" "df = sort_key sbri_sort_key d"
        by (auto simp: scrape_sbri_data_def split: sum.splits)
      from convert_columns_nonzero [OF d(1)] show ?thesis
        unfolding d(2) by (simp add: list_all_iff moneylines_nonzero_def)
    qed
  qed
qed (use assms in \<open>simp_all add: scrape_sbri_data_def\<close>)


section \<open>Properties of the reconciliation\<close>

lemma convert_cell_iff:
  "convert_american_to_decimal (cell_obj a) = Inr y \<longleftrightarrow>
     (a \<noteq> Some 0 \<and> y = map_option decimal_of_american a)"
  by (cases a) (auto simp: convert_american_to_decimal_def decimal_of_american_def py_div_def)

lemma try_map_convert_iff:
  "try_map (\<lambda>m. convert_american_to_decimal (cell_obj (sel m))) xs = Inr ys \<longleftrightarrow>
     (list_all (\<lambda>m. sel m \<noteq> Some 0) xs \<and> ys = map (\<lambda>m. map_option decimal_of_american (sel m)) xs)"
  unfolding try_map_Inr_iff convert_cell_iff
  by (induction xs arbitrary: ys) (auto simp: list_all2_Cons1)

lemma map_zip_cols: "map (\<lambda>(m, a, b). h m a b) (zip xs (zip (map f xs) (map g xs))) = map (\<lambda>m. h m (f m) (g m)) xs"
  by (induction xs) auto

lemma try_map_convert_Inl:
  "try_map (\<lambda>m. convert_american_to_decimal (cell_obj (sel m))) xs = Inl e \<Longrightarrow>
     \<not> list_all (\<lambda>m. sel m \<noteq> Some 0) xs"
  using try_map_convert_iff[of sel xs "map (\<lambda>m. map_option decimal_of_american (sel m)) xs"]
  by auto

lemma analysis_ready_iff:
  "analysis_ready df = Inr ready \<longleftrightarrow>
     (list_all nonzero_odds (filter is_ready df) \<and> ready = map ready_of (filter is_ready df))"
proof -
  have f: "filter (\<lambda>m. Status m = ''Ready for Analysis'') df = filter is_ready df"
    by (simp add: is_ready_def[abs_def])
  have n: "list_all nonzero_odds xs \<longleftrightarrow>
      list_all (\<lambda>m. m_Home_MLOdds m \<noteq> Some 0) xs \<and> list_all (\<lambda>m. m_Away_MLOdds m \<noteq> Some 0) xs"
    for xs :: "status_row list"
    by (auto simp: list_all_iff nonzero_odds_def)
  show ?thesis
    unfolding analysis_ready_def Let_def f n
    by (auto simp: try_map_convert_iff map_zip_cols ready_of_def
        dest: try_map_convert_Inl split: sum.splits)
qed

lemma truncate_with_best_bet [simp]: "status_row.truncate (with_best_bet m t v) = m"
  by (simp add: with_best_bet_def status_row.defs final_row.defs merged_row.defs)

lemma with_best_bet_fields [simp]:
  "BestBetTeam (with_best_bet m t v) = t" "BestBetValue (with_best_bet m t v) = v"
  "Status (with_best_bet m t v) = Status m" "Timestamp (with_best_bet m t v) = Timestamp m"
  "m_Home_MLOdds (with_best_bet m t v) = m_Home_MLOdds m"
  "m_HomeWinProb_pred (with_best_bet m t v) = m_HomeWinProb_pred m"
  "row_key (with_best_bet m t v) = row_key m" "ts_key (with_best_bet m t v) = ts_key m"
  by (simp_all add: with_best_bet_def status_row.defs final_row.defs merged_row.defs row_key_def ts_key_def)

lemma merge_outer_rows:
  assumes "m \<in> set (merge_outer sbri_df dratings_df)"
  shows "\<exists>k g d. m = join_rows k g d \<and> (g = None \<or> (\<exists>x\<in>set sbri_df. g = Some x))"
proof -
  from assms consider
    (left) x where "x \<in> set sbri_df"
      "m \<in> set (case filter (\<lambda>d. pred_key d = odds_key x) dratings_df of
          [] \<Rightarrow> [join_rows (odds_key x) (Some x) None]
        | ds \<Rightarrow> map (\<lambda>d. join_rows (odds_key x) (Some x) (Some d)) ds)"
  | (right) d where "m = join_rows (pred_key d) None (Some d)"
    unfolding merge_outer_def by auto
  then show ?thesis
  proof cases
    case left
    then have "\<exists>d. m = join_rows (odds_key x) (Some x) d"
      by (cases "filter (\<lambda>d. pred_key d = odds_key x) dratings_df") auto
    with left(1) show ?thesis by blast
  next
    case right
    then show ?thesis by blast
  qed
qed

lemma status_row_fields [simp]:
  "m_Home_MLOdds (fill_game (add_status m)) = m_Home_MLOdds m"
  "m_Away_MLOdds (fill_game (add_status m)) = m_Away_MLOdds m"
  "m_HomeWinProb_pred (fill_game (add_status m)) = m_HomeWinProb_pred m"
  "Status (fill_game (add_status m)) = row_status m"
  "Timestamp (fill_game (add_status m)) = Timestamp m"
  by (simp_all add: fill_game_def add_status_def merged_row.defs status_row.defs)

lemma join_rows_odds [simp]:
  "m_Home_MLOdds (join_rows k g d) = Option.bind g Home_MLOdds"
  "m_Away_MLOdds (join_rows k g d) = Option.bind g Away_MLOdds"
  by (simp_all add: join_rows_def)

lemma merged_frame_nonzero:
  assumes "list_all (\<lambda>g. Home_MLOdds g \<noteq> Some 0 \<and> Away_MLOdds g \<noteq> Some 0) sbri_df"
  shows "list_all nonzero_odds (merged_frame sbri_df dratings_df)"
proof -
  have "nonzero_odds (fill_game (add_status m))" if "m \<in> set (merge_outer sbri_df dratings_df)" for m
  proof -
    from merge_outer_rows[OF that] obtain k g d where
      m: "m = join_rows k g d" and g: "g = None \<or> (\<exists>x\<in>set sbri_df. g = Some x)" by blast
    from g assms show ?thesis
      by (auto simp: m nonzero_odds_def list_all_iff)
  qed
  then show ?thesis
    by (auto simp: merged_frame_def list_all_iff)
qed

lemma merge_left_rows:
  assumes "r \<in> set (merge_left df pos)"
  shows "\<exists>m\<in>set df. (r = with_best_bet m None None \<and> (\<forall>p\<in>set pos. row_key p \<noteq> row_key m))
     \<or> (\<exists>p\<in>set pos. row_key p = row_key m \<and> r = with_best_bet m (BestBetTeam p) (BestBetValue p))"
proof -
  from assms obtain m where m: "m \<in> set df" and
    r: "r \<in> set (case filter (\<lambda>p. row_key p = row_key m) pos of
          [] \<Rightarrow> [with_best_bet m None None]
        | ps \<Rightarrow> map (\<lambda>p. with_best_bet m (BestBetTeam p) (BestBetValue p)) ps)"
    unfolding merge_left_def by auto
  show ?thesis
  proof (cases "filter (\<lambda>p. row_key p = row_key m) pos")
    case Nil
    then have "\<forall>p\<in>set pos. row_key p \<noteq> row_key m"
      by (simp add: filter_empty_conv)
    with r Nil m show ?thesis by auto
  next
    case (Cons a as)
    with r obtain p where "p \<in> set (filter (\<lambda>p. row_key p = row_key m) pos)"
      "r = with_best_bet m (BestBetTeam p) (BestBetValue p)"
      by auto
    with m show ?thesis by auto
  qed
qed

lemma merge_left_truncate: "set (map status_row.truncate (merge_left df pos)) = set df"
proof -
  have "status_row.truncate ` set (case filter (\<lambda>p. row_key p = row_key m) pos of
          [] \<Rightarrow> [with_best_bet m None None]
        | ps \<Rightarrow> map (\<lambda>p. with_best_bet m (BestBetTeam p) (BestBetValue p)) ps) = {m}" for m
    by (cases "filter (\<lambda>p. row_key p = row_key m) pos") (auto simp: image_iff)
  then show ?thesis
    unfolding merge_left_def by (auto simp: image_UN)
qed

lemma analysis_returns:
  assumes "list_all nonzero_odds (merged_frame sbri_df dratings_df)"
  shows "merge_and_calculate sbri_df dratings_df =
     Inr (if merge_outer sbri_df dratings_df = [] then []
          else let merged_df = merged_frame sbri_df dratings_df;
                   ready = map ready_of (filter is_ready merged_df)
               in if ready \<noteq> [] then
                    sort_key ts_key (merge_left merged_df (filter (\<lambda>r. nan_gt (BestBetValue r) (Some 0)) ready))
                  else sort_key ts_key (map (\<lambda>m. with_best_bet m None None) merged_df))"
proof -
  have "analysis_ready (merged_frame sbri_df dratings_df) =
      Inr (map ready_of (filter is_ready (merged_frame sbri_df dratings_df)))"
    using assms by (simp add: analysis_ready_iff list_all_iff)
  then show ?thesis
    by (simp add: merge_and_calculate_def Let_def)
qed

lemma analysis_Inr_nonzero:
  assumes "merge_and_calculate sbri_df dratings_df = Inr out"
  shows "list_all nonzero_odds (filter is_ready (merged_frame sbri_df dratings_df))"
proof (cases "merge_outer sbri_df dratings_df = []")
  case True
  then show ?thesis by (simp add: merged_frame_def)
next
  case False
  with assms obtain ready where "analysis_ready (merged_frame sbri_df dratings_df) = Inr ready"
    by (auto simp: merge_and_calculate_def Let_def split: sum.splits)
  then show ?thesis by (simp add: analysis_ready_iff)
qed

lemma ready_of_fields [simp]:
  "HomeDecimalOdds (ready_of m) = map_option decimal_of_american (m_Home_MLOdds m)"
  "AwayDecimalOdds (ready_of m) = map_option decimal_of_american (m_Away_MLOdds m)"
  "HomeImpliedProb (ready_of m) = implied_prob (HomeDecimalOdds (ready_of m))"
  "AwayImpliedProb (ready_of m) = implied_prob (AwayDecimalOdds (ready_of m))"
  "HomeValue (ready_of m) = edge_value (m_HomeWinProb_pred m) (HomeDecimalOdds (ready_of m))"
  "AwayValue (ready_of m) = edge_value (m_AwayWinProb_pred m) (AwayDecimalOdds (ready_of m))"
  "BestBetTeam (ready_of m) =
     (if nan_gt (HomeValue (ready_of m)) (AwayValue (ready_of m)) then m_HomeTeam m else m_AwayTeam m)"
  "BestBetValue (ready_of m) = np_maximum (HomeValue (ready_of m)) (AwayValue (ready_of m))"
  "status_row.truncate (ready_of m) = m"
  "row_key (ready_of m) = row_key m"
  "m_HomeTeam (ready_of m) = m_HomeTeam m"
  "m_AwayTeam (ready_of m) = m_AwayTeam m"
  by (simp_all add: ready_of_def calc_row_def Let_def with_best_bet_def row_key_def
      status_row.defs final_row.defs merged_row.defs ready_row.defs)

lemma out_rows:
  assumes "merge_and_calculate sbri_df dratings_df = Inr out" "r \<in> set out"
  shows "\<exists>m\<in>set (merged_frame sbri_df dratings_df).
     (r = with_best_bet m None None \<and>
        (\<forall>p\<in>set (filter is_ready (merged_frame sbri_df dratings_df)).
            row_key p = row_key m \<longrightarrow> \<not> nan_gt (BestBetValue (ready_of p)) (Some 0)))
     \<or> (\<exists>p\<in>set (filter is_ready (merged_frame sbri_df dratings_df)).
            row_key p = row_key m \<and> nan_gt (BestBetValue (ready_of p)) (Some 0)
            \<and> r = with_best_bet m (BestBetTeam (ready_of p)) (BestBetValue (ready_of p)))"
proof -
  let ?mf = "merged_frame sbri_df dratings_df"
  let ?ready = "map ready_of (filter is_ready ?mf)"
  let ?pos = "filter (\<lambda>r. nan_gt (BestBetValue r) (Some 0)) ?ready"
  have nz: "list_all nonzero_odds (filter is_ready ?mf)"
    using assms(1) by (rule analysis_Inr_nonzero)
  then have ar: "analysis_ready ?mf = Inr ?ready"
    by (simp add: analysis_ready_iff)
  from assms have ne: "merge_outer sbri_df dratings_df \<noteq> []"
    by (auto simp: merge_and_calculate_def)
  show ?thesis
  proof (cases "?ready = []")
    case True
    with assms ne ar have "r \<in> set (map (\<lambda>m. with_best_bet m None None) ?mf)"
      by (auto simp: merge_and_calculate_def Let_def)
    then obtain m where "m \<in> set ?mf" "r = with_best_bet m None None" by auto
    moreover from True have "filter is_ready ?mf = []" by simp
    ultimately show ?thesis by auto
  next
    case False
    with assms ne ar have "r \<in> set (merge_left ?mf ?pos)"
      by (auto simp: merge_and_calculate_def Let_def)
    from merge_left_rows[OF this] obtain m where m: "m \<in> set ?mf" and
      c: "(r = with_best_bet m None None \<and> (\<forall>p\<in>set ?pos. row_key p \<noteq> row_key m))
     \<or> (\<exists>p\<in>set ?pos. row_key p = row_key m \<and> r = with_best_bet m (BestBetTeam p) (BestBetValue p))"
      by blast
    from c show ?thesis
    proof
      assume "r = with_best_bet m None None \<and> (\<forall>p\<in>set ?pos. row_key p \<noteq> row_key m)"
      with m show ?thesis by (intro bexI[of _ m] disjI1) auto
    next
      assume "\<exists>p\<in>set ?pos. row_key p = row_key m \<and> r = with_best_bet m (BestBetTeam p) (BestBetValue p)"
      then obtain q where q: "q \<in> set (filter is_ready ?mf)" "nan_gt (BestBetValue (ready_of q)) (Some 0)"
        "row_key (ready_of q) = row_key m" "r = with_best_bet m (BestBetTeam (ready_of q)) (BestBetValue (ready_of q))"
        by auto
      with m show ?thesis by (intro bexI[of _ m] disjI2 bexI[of _ q]) auto
    qed
  qed
qed

lemma merged_frame_status:
  assumes "m \<in> set (merged_frame sbri_df dratings_df)"
  shows "Status m = row_status (merged_row.truncate m)
     \<and> m_Home_MLOdds (merged_row.truncate m) = m_Home_MLOdds m
     \<and> m_HomeWinProb_pred (merged_row.truncate m) = m_HomeWinProb_pred m"
  using assms
  by (auto simp: merged_frame_def fill_game_def add_status_def merged_row.defs status_row.defs row_status_def)

lemma row_status_cases:
  "row_status m =
     (if notna (m_Home_MLOdds m) \<and> notna (m_HomeWinProb_pred m) then ''Ready for Analysis''
      else if \<not> notna (m_Home_MLOdds m) then ''Missing Odds'' else ''Missing Prediction'')"
  by (simp add: row_status_def)

lemma analysis_Inr_eq:
  assumes "merge_and_calculate sbri_df dratings_df = Inr out"
  shows "analysis_ready (merged_frame sbri_df dratings_df)
       = Inr (map ready_of (filter is_ready (merged_frame sbri_df dratings_df)))
     \<and> out = (if merge_outer sbri_df dratings_df = [] then []
          else let merged_df = merged_frame sbri_df dratings_df;
                   ready = map ready_of (filter is_ready merged_df)
               in if ready \<noteq> [] then
                    sort_key ts_key (merge_left merged_df (filter (\<lambda>r. nan_gt (BestBetValue r) (Some 0)) ready))
                  else sort_key ts_key (map (\<lambda>m. with_best_bet m None None) merged_df))"
proof -
  have ar: "analysis_ready (merged_frame sbri_df dratings_df)
       = Inr (map ready_of (filter is_ready (merged_frame sbri_df dratings_df)))"
    using analysis_Inr_nonzero [OF assms] by (simp add: analysis_ready_iff)
  with assms show ?thesis
    by (simp add: merge_and_calculate_def Let_def split: if_splits)
qed

lemma merge_left_copies:
  "map status_row.truncate (merge_left df pos)
     = concat (map (\<lambda>m. replicate (max 1 (length (filter (\<lambda>p. row_key p = row_key m) pos))) m) df)"
proof -
  have "map status_row.truncate (case filter (\<lambda>p. row_key p = row_key m) pos of
          [] \<Rightarrow> [with_best_bet m None None]
        | ps \<Rightarrow> map (\<lambda>p. with_best_bet m (BestBetTeam p) (BestBetValue p)) ps)
      = replicate (max 1 (length (filter (\<lambda>p. row_key p = row_key m) pos))) m" for m
    by (cases "filter (\<lambda>p. row_key p = row_key m) pos")
       (simp_all add: o_def map_replicate_const)
  then show ?thesis
    unfolding merge_left_def by (simp add: map_concat o_def)
qed

lemma out_truncate:
  assumes "merge_and_calculate sbri_df dratings_df = Inr out"
    and "analysis_ready (merged_frame sbri_df dratings_df) = Inr ready"
  shows "mset (map status_row.truncate out)
     = mset (concat (map (\<lambda>m. replicate (copies ready m) m) (merged_frame sbri_df dratings_df)))"
proof -
  let ?mf = "merged_frame sbri_df dratings_df"
  from analysis_Inr_eq [OF assms(1)] assms(2) have
    ready: "ready = map ready_of (filter is_ready ?mf)" and
    out: "out = (if merge_outer sbri_df dratings_df = [] then []
          else if ready \<noteq> [] then
                 sort_key ts_key (merge_left ?mf (filter (\<lambda>r. nan_gt (BestBetValue r) (Some 0)) ready))
               else sort_key ts_key (map (\<lambda>m. with_best_bet m None None) ?mf))"
    by (simp_all add: Let_def)
  have srt: "mset (map status_row.truncate (sort_key ts_key xs)) = mset (map status_row.truncate xs)"
    for xs :: "final_row list"
    by simp
  show ?thesis
  proof (cases "merge_outer sbri_df dratings_df = []")
    case True
    then show ?thesis by (simp add: out merged_frame_def)
  next
    case False
    note ne = this
    show ?thesis
    proof (cases "ready = []")
      case True
      have "map status_row.truncate (map (\<lambda>m. with_best_bet m None None) ?mf) = ?mf"
        by (simp add: o_def)
      moreover have "concat (map (\<lambda>m. replicate (copies [] m) m) ?mf) = ?mf"
        by (induction ?mf) (simp_all add: copies_def)
      moreover have "out = sort_key ts_key (map (\<lambda>m. with_best_bet m None None) ?mf)"
        using ne True by (simp add: out)
      ultimately show ?thesis
        unfolding True by (simp only: srt)
    next
      case False
      have "out = sort_key ts_key (merge_left ?mf (filter (\<lambda>r. nan_gt (BestBetValue r) (Some 0)) ready))"
        using ne False by (simp add: out)
      then have "mset (map status_row.truncate out)
          = mset (map status_row.truncate
                (merge_left ?mf (filter (\<lambda>r. nan_gt (BestBetValue r) (Some 0)) ready)))"
        by (simp only: srt)
      then show ?thesis
        by (simp only: merge_left_copies copies_def)
    qed
  qed
qed

lemma filter_key_distinct:
  "distinct (map f xs) \<Longrightarrow> length (filter (\<lambda>x. f x = k) xs) \<le> 1"
proof (induction xs)
  case Nil
  then show ?case by simp
next
  case (Cons a xs)
  show ?case
  proof (cases "f a = k")
    case True
    with Cons.prems have "k \<notin> f ` set xs" by simp
    then have "\<forall>x\<in>set xs. f x \<noteq> k" by blast
    then have "filter (\<lambda>x. f x = k) xs = []" by (simp add: filter_empty_conv)
    with True show ?thesis by simp
  next
    case False
    with Cons show ?thesis by simp
  qed
qed

lemma copies_distinct:
  assumes "distinct (map row_key (filter (\<lambda>p. nan_gt (BestBetValue p) (Some 0)) ready))"
  shows "concat (map (\<lambda>m. replicate (copies ready m) m) df) = df"
proof -
  have "copies ready m = 1" for m
    using filter_key_distinct [OF assms, of "row_key m"] by (simp add: copies_def)
  then show ?thesis
    by (induction df) simp_all
qed

lemma analysis_Inl:
  "pre_processing lib sbri_df dratings_df = Inl e \<Longrightarrow>
     perform_baseball_analysis lib sbri_df dratings_df = Inr []"
  by (simp add: perform_baseball_analysis_def)

lemma analysis_Inr:
  "pre_processing lib sbri_df dratings_df = Inr (odds, preds) \<Longrightarrow>
     perform_baseball_analysis lib sbri_df dratings_df = merge_and_calculate odds preds"
  by (simp add: perform_baseball_analysis_def)

lemma analysis_rows:
  assumes "perform_baseball_analysis lib sbri_df dratings_df = Inr out" "r \<in> set out"
  shows "\<exists>odds preds. pre_processing lib sbri_df dratings_df = Inr (odds, preds)
     \<and> merge_and_calculate odds preds = Inr out"
proof (cases "pre_processing lib sbri_df dratings_df")
  case (Inl e)
  with assms show ?thesis by (simp add: perform_baseball_analysis_def)
next
  case (Inr p)
  with assms(1) show ?thesis by (cases p) (simp add: perform_baseball_analysis_def)
qed

text \<open>
  Step 1 fails, and the function returns the empty frame, when a scraper gave no frame
  or a frame without columns, and when the prediction frame has no rows.
\<close>

lemma analysis_without_input:
  "perform_baseball_analysis lib NoFrame dratings_df = Inr []"
  "perform_baseball_analysis lib NoColumns dratings_df = Inr []"
  "perform_baseball_analysis lib sbri_df NoFrame = Inr []"
  "perform_baseball_analysis lib sbri_df NoColumns = Inr []"
  "perform_baseball_analysis lib sbri_df (Frame []) = Inr []"
  by (simp_all add: perform_baseball_analysis_def pre_processing_def clean_dratings_def
      clean_sbri_def expand_column_def expand_width_def str_split_def split: sum.splits)

text \<open>
  Claim C1, amended: in every row of the returned frame the status is
  \<open>Ready for Analysis\<close> if the home moneyline and the home win probability are both
  present, \<open>Missing Odds\<close> if the home moneyline is missing, and
  \<open>Missing Prediction\<close> otherwise (the home moneyline present, the home win
  probability missing). The away columns are not read, and \<open>Unknown\<close> is never
  assigned.
\<close>

theorem status_home_side_only:
  assumes "perform_baseball_analysis lib sbri_df dratings_df = Inr out" "r \<in> set out"
  shows "Status r =
     (if notna (m_Home_MLOdds r) \<and> notna (m_HomeWinProb_pred r) then ''Ready for Analysis''
      else if \<not> notna (m_Home_MLOdds r) then ''Missing Odds'' else ''Missing Prediction'')
     \<and> Status r \<noteq> ''Unknown''"
proof -
  from analysis_rows [OF assms] obtain odds preds where
    run: "merge_and_calculate odds preds = Inr out" by blast
  from out_rows [OF run assms(2)] obtain m t v where m: "m \<in> set (merged_frame odds preds)"
    and r: "r = with_best_bet m t v" by blast
  from merged_frame_status[OF m] show ?thesis
    unfolding r by (simp add: row_status_cases)
qed

lemma nan_gt_zero_pos: "nan_gt x (Some 0) \<Longrightarrow> x = Some v \<Longrightarrow> 0 < v"
  by (simp add: nan_gt_def)

text \<open>
  Claim C2, amended: when step 1 raises, the function returns the empty frame. When
  step 1 succeeds and no moneyline of the odds frame is zero, the function returns a
  frame that is sorted by timestamp ascending (missing timestamps last) and carries
  every joined row and no other row: a joined row once for every ready row with its
  key and a strictly positive best value, and once when there is none, so that every
  joined row is carried exactly once when no two rows with a strictly positive best
  value share a key. The two columns \<open>BestBetTeam\<close> and \<open>BestBetValue\<close> are filled
  only with a strictly positive value, and a row is carried with both columns missing
  when no ready row with its key has a strictly positive best value. A ready row with
  neither side positive is thus kept, with the value missing rather than a value
  \<open>\<le> 0\<close>.
\<close>

theorem analysis_output_rows:
  "case pre_processing lib sbri_df dratings_df of
     Inl e \<Rightarrow> perform_baseball_analysis lib sbri_df dratings_df = Inr []
   | Inr (odds, preds) \<Rightarrow>
       list_all (\<lambda>g. Home_MLOdds g \<noteq> Some 0 \<and> Away_MLOdds g \<noteq> Some 0) odds \<longrightarrow>
       (\<exists>out ready.
            perform_baseball_analysis lib sbri_df dratings_df = Inr out
          \<and> analysis_ready (merged_frame odds preds) = Inr ready
          \<and> sorted (map ts_key out)
          \<and> set (map status_row.truncate out) = set (merged_frame odds preds)
          \<and> mset (map status_row.truncate out)
              = mset (concat (map (\<lambda>m. replicate (copies ready m) m) (merged_frame odds preds)))
          \<and> (distinct (map row_key (filter (\<lambda>p. nan_gt (BestBetValue p) (Some 0)) ready)) \<longrightarrow>
                mset (map status_row.truncate out) = mset (merged_frame odds preds))
          \<and> (\<forall>r\<in>set out. \<forall>v. BestBetValue r = Some v \<longrightarrow> 0 < v)
          \<and> (\<forall>r\<in>set out.
                (\<forall>p\<in>set ready. row_key p = row_key r \<longrightarrow> \<not> nan_gt (BestBetValue p) (Some 0))
                \<longrightarrow> BestBetTeam r = None \<and> BestBetValue r = None))"
proof (cases "pre_processing lib sbri_df dratings_df")
  case (Inl e)
  then show ?thesis by (simp add: analysis_Inl)
next
  case (Inr p)
  obtain odds preds where p: "p = (odds, preds)" by (cases p)
  note pre = Inr [unfolded p]
  have "\<exists>out ready.
            perform_baseball_analysis lib sbri_df dratings_df = Inr out
          \<and> analysis_ready (merged_frame odds preds) = Inr ready
          \<and> sorted (map ts_key out)
          \<and> set (map status_row.truncate out) = set (merged_frame odds preds)
          \<and> mset (map status_row.truncate out)
              = mset (concat (map (\<lambda>m. replicate (copies ready m) m) (merged_frame odds preds)))
          \<and> (distinct (map row_key (filter (\<lambda>p. nan_gt (BestBetValue p) (Some 0)) ready)) \<longrightarrow>
                mset (map status_row.truncate out) = mset (merged_frame odds preds))
          \<and> (\<forall>r\<in>set out. \<forall>v. BestBetValue r = Some v \<longrightarrow> 0 < v)
          \<and> (\<forall>r\<in>set out.
                (\<forall>p\<in>set ready. row_key p = row_key r \<longrightarrow> \<not> nan_gt (BestBetValue p) (Some 0))
                \<longrightarrow> BestBetTeam r = None \<and> BestBetValue r = None)"
    if nzo: "list_all (\<lambda>g. Home_MLOdds g \<noteq> Some 0 \<and> Away_MLOdds g \<noteq> Some 0) odds"
  proof -
    let ?mf = "merged_frame odds preds"
    let ?ready = "map ready_of (filter is_ready ?mf)"
    have nz: "list_all nonzero_odds ?mf"
      using nzo by (rule merged_frame_nonzero)
    then have ar: "analysis_ready ?mf = Inr ?ready"
      by (simp add: analysis_ready_iff list_all_iff)
    from analysis_returns [OF nz] obtain out where
      run: "merge_and_calculate odds preds = Inr out" and
      out_eq: "out = (if merge_outer odds preds = [] then []
            else if ?ready \<noteq> [] then
                   sort_key ts_key (merge_left ?mf (filter (\<lambda>r. nan_gt (BestBetValue r) (Some 0)) ?ready))
                 else sort_key ts_key (map (\<lambda>m. with_best_bet m None None) ?mf))"
      by (simp add: Let_def)
    have out: "perform_baseball_analysis lib sbri_df dratings_df = Inr out"
      using run by (simp add: analysis_Inr [OF pre])
    have srt: "sorted (map ts_key out)"
      unfolding out_eq by (simp add: sorted_sort_key)
    have carried: "set (map status_row.truncate out) = set ?mf"
    proof (cases "merge_outer odds preds = []")
      case True
      then show ?thesis by (simp add: out_eq merged_frame_def)
    next
      case False
      have "status_row.truncate ` (\<lambda>m. with_best_bet m None None) ` set ?mf = set ?mf"
        by (simp add: image_image)
      with False show ?thesis
        using merge_left_truncate [of ?mf] by (simp add: out_eq)
    qed
    have times: "mset (map status_row.truncate out)
        = mset (concat (map (\<lambda>m. replicate (copies ?ready m) m) ?mf))"
      using run ar by (rule out_truncate)
    have once: "mset (map status_row.truncate out) = mset ?mf"
      if "distinct (map row_key (filter (\<lambda>p. nan_gt (BestBetValue p) (Some 0)) ?ready))"
      unfolding times copies_distinct [OF that] ..
    have pos: "0 < v" if "r \<in> set out" "BestBetValue r = Some v" for r v
      using out_rows [OF run that(1)] that(2) by (auto dest: nan_gt_zero_pos)
    have absent: "BestBetTeam r = None \<and> BestBetValue r = None"
      if "r \<in> set out"
        "\<forall>p\<in>set ?ready. row_key p = row_key r \<longrightarrow> \<not> nan_gt (BestBetValue p) (Some 0)" for r
      using out_rows [OF run that(1)] that(2) by auto
    from out ar srt carried times once pos absent show ?thesis
      by blast
  qed
  then show ?thesis
    by (simp add: pre)
qed

subsection \<open>The claims on concrete frames\<close>

lemma decimal_odds_gt_1:
  assumes "convert_american_to_decimal x = Inr (Some d)"
  shows "1 < d"
proof (cases x)
  case (PyNum a)
  with assms show ?thesis
    by (auto simp: convert_american_to_decimal_def py_div_def split: if_splits)
next
  case (PyText s r)
  with assms show ?thesis
    by (cases r) (auto simp: convert_american_to_decimal_def py_div_def split: if_splits)
qed (use assms in \<open>auto simp: convert_american_to_decimal_def\<close>)

lemmas analysis_unfold =
  merge_and_calculate_def merged_frame_def merge_outer_def join_rows_def odds_key_def
  pred_key_def row_key_def row_status_def add_status_def fill_game_def ts_key_def na_last_def
  notna_def analysis_ready_def calc_row_def with_best_bet_def merge_left_def nan_gt_def
  np_maximum_def edge_value_def implied_prob_def convert_american_to_decimal_def py_div_def
  merged_row.defs status_row.defs final_row.defs ready_row.defs Let_def
  example_odds_def example_pred_def example_pred_even_def example_odds_home_only_def
  example_odds_level_def example_pred_level_def example_odds_late_def example_pred_early_def
  example_pred_low_def

lemmas step_1_unfold =
  clean_dratings_def str_split_def expand_column_def expand_width_def win_prob_def
  strip_chars_def whitespace_def example_library_def scraped_pred_def
  dratings_row.defs pred_row.defs Let_def
  example_pred_def example_pred_even_def example_pred_early_def example_pred_low_def
  example_dratings_one_part_def

text \<open>Step 1 on the example frames.\<close>

lemma example_clean_sbri: "clean_sbri example_library (Frame (map scraped_odds gs)) = Inr gs"
proof -
  have "map (\<lambda>(g, t). g\<lparr>GameStart := t\<rparr>)
      (zip (map scraped_odds gs)
         (map (map_option (\<lambda>t. t + 14400)) (map GameStart (map scraped_odds gs)))) = gs"
    by (induction gs) (simp_all add: scraped_odds_def option.map_comp o_def option.map_ident)
  then show ?thesis
    by (simp add: clean_sbri_def example_library_def)
qed

lemma example_clean_dratings:
  "clean_dratings example_library (Frame (map scraped_pred [example_pred, example_pred_early]))
     = Inr [example_pred, example_pred_early]"
  "clean_dratings example_library (Frame (map scraped_pred [example_pred_even, example_pred_early]))
     = Inr [example_pred_even, example_pred_early]"
  "clean_dratings example_library (Frame (map scraped_pred [example_pred]))
     = Inr [example_pred]"
  "clean_dratings example_library (Frame (map scraped_pred [example_pred_even]))
     = Inr [example_pred_even]"
  "clean_dratings example_library (Frame (map scraped_pred [example_pred_low]))
     = Inr [example_pred_low]"
  by (simp_all add: step_1_unfold del: not_None_eq)

lemma example_pre_processing:
  assumes "clean_dratings example_library (Frame (map scraped_pred ds)) = Inr ds"
  shows "pre_processing example_library (Frame (map scraped_odds gs)) (Frame (map scraped_pred ds))
     = Inr (gs, ds)"
  by (simp add: pre_processing_def assms example_clean_sbri)

lemmas example_analysis =
  example_clean_dratings [THEN example_pre_processing, THEN analysis_Inr]

text \<open>
  A prediction frame in which no row has two percentages makes step 1 raise, and the
  function returns the empty frame, whatever the odds frame holds.
\<close>

lemma analysis_without_second_percentage:
  "perform_baseball_analysis example_library (Frame [scraped_odds example_odds])
     (Frame [example_dratings_one_part]) = Inr []"
  by (simp add: perform_baseball_analysis_def pre_processing_def step_1_unfold
      del: not_None_eq)

text \<open>
  Two prediction rows with the key of one odds record give two joined rows, both with
  a positive best value, and the left merge of step 4 returns each of them twice.
\<close>

lemma shared_key_rows_repeat:
  "map_sum id length
     (perform_baseball_analysis example_library (Frame (map scraped_odds [example_odds]))
        (Frame (map scraped_pred [example_pred, example_pred]))) = Inr 4
   \<and> length (merged_frame [example_odds] [example_pred, example_pred]) = 2"
proof -
  have "clean_dratings example_library (Frame (map scraped_pred [example_pred, example_pred]))
     = Inr [example_pred, example_pred]"
    by (simp add: step_1_unfold del: not_None_eq)
  note run = this [THEN example_pre_processing, THEN analysis_Inr]
  show ?thesis
    unfolding run by (simp add: analysis_unfold del: not_None_eq)
qed

theorem status_home_side_only_witness:
  "map_sum id (map (\<lambda>r. (notna (m_Home_MLOdds r), notna (m_HomeWinProb_pred r), Status r)))
     (perform_baseball_analysis example_library
        (Frame (map scraped_odds [example_odds_late, example_odds]))
        (Frame (map scraped_pred [example_pred, example_pred_early])))
   = Inr [(False, True, ''Missing Odds''), (True, True, ''Ready for Analysis''),
          (True, False, ''Missing Prediction'')]"
proof -
  let ?res = "perform_baseball_analysis example_library
        (Frame (map scraped_odds [example_odds_late, example_odds]))
        (Frame (map scraped_pred [example_pred, example_pred_early]))"
  have p: "map_sum id (map (\<lambda>r. (notna (m_Home_MLOdds r), notna (m_HomeWinProb_pred r))))
      ?res = Inr [(False, True), (True, True), (True, False)]"
    unfolding example_analysis by (simp add: analysis_unfold del: not_None_eq)
  then obtain r1 r2 r3 where e: "?res = Inr [r1, r2, r3]"
    by (cases ?res) auto
  have s: "Status r =
     (if notna (m_Home_MLOdds r) \<and> notna (m_HomeWinProb_pred r) then ''Ready for Analysis''
      else if \<not> notna (m_Home_MLOdds r) then ''Missing Odds'' else ''Missing Prediction'')"
    if "r \<in> set [r1, r2, r3]" for r
    using status_home_side_only [OF e that] by blast
  have "Status r1 = ''Missing Odds''" "Status r2 = ''Ready for Analysis''"
    "Status r3 = ''Missing Prediction''"
    using s [of r1] s [of r2] s [of r3] p unfolding e by simp_all
  with p show ?thesis
    unfolding e by simp
qed

text \<open>
  Claim C1, as stated, fails on a row whose home moneyline and both win probabilities
  are present while the away moneyline is missing: the function gives it the status
  \<open>Ready for Analysis\<close>, the claim's classification \<open>Unknown\<close>.
\<close>

theorem status_ignores_away_side:
  "map_sum id (map (\<lambda>r. (m_Home_MLOdds r, m_Away_MLOdds r, m_HomeWinProb_pred r,
       m_AwayWinProb_pred r, Status r, claimed_status r)))
     (perform_baseball_analysis example_library (Frame (map scraped_odds [example_odds_home_only]))
        (Frame (map scraped_pred [example_pred])))
   = Inr [(Some (- (10000 / 91)), None, Some (3 / 5), Some (2 / 5),
           ''Ready for Analysis'', ''Unknown'')]"
  unfolding example_analysis
  by (simp add: analysis_unfold claimed_status_def del: not_None_eq)

theorem analysis_output_rows_witness:
  "list_all (\<lambda>g. Home_MLOdds g \<noteq> Some 0 \<and> Away_MLOdds g \<noteq> Some 0)
     [example_odds_late, example_odds]
   \<and> pre_processing example_library
        (Frame (map scraped_odds [example_odds_late, example_odds]))
        (Frame (map scraped_pred [example_pred_even, example_pred_early]))
      = Inr ([example_odds_late, example_odds], [example_pred_even, example_pred_early])
   \<and> map_sum id (map (\<lambda>r. (Timestamp r, Status r, BestBetTeam r, BestBetValue r)))
        (perform_baseball_analysis example_library
           (Frame (map scraped_odds [example_odds_late, example_odds]))
           (Frame (map scraped_pred [example_pred_even, example_pred_early])))
      = Inr [(Some 1749913600, ''Missing Odds'', None, None),
             (Some 1750000000, ''Ready for Analysis'', None, None),
             (Some 1750086400, ''Missing Prediction'', None, None)]
   \<and> (\<exists>out ready.
         perform_baseball_analysis example_library
           (Frame (map scraped_odds [example_odds_late, example_odds]))
           (Frame (map scraped_pred [example_pred_even, example_pred_early])) = Inr out
       \<and> analysis_ready (merged_frame [example_odds_late, example_odds]
           [example_pred_even, example_pred_early]) = Inr ready
       \<and> sorted (map ts_key out)
       \<and> set (map status_row.truncate out)
           = set (merged_frame [example_odds_late, example_odds]
               [example_pred_even, example_pred_early])
       \<and> mset (map status_row.truncate out)
           = mset (concat (map (\<lambda>m. replicate (copies ready m) m)
               (merged_frame [example_odds_late, example_odds]
                  [example_pred_even, example_pred_early])))
       \<and> (distinct (map row_key (filter (\<lambda>p. nan_gt (BestBetValue p) (Some 0)) ready)) \<longrightarrow>
             mset (map status_row.truncate out)
               = mset (merged_frame [example_odds_late, example_odds]
                   [example_pred_even, example_pred_early]))
       \<and> (\<forall>r\<in>set out. \<forall>v. BestBetValue r = Some v \<longrightarrow> 0 < v)
       \<and> (\<forall>r\<in>set out.
             (\<forall>p\<in>set ready. row_key p = row_key r \<longrightarrow> \<not> nan_gt (BestBetValue p) (Some 0))
             \<longrightarrow> BestBetTeam r = None \<and> BestBetValue r = None))"
proof -
  let ?sbri = "Frame (map scraped_odds [example_odds_late, example_odds])"
  let ?drat = "Frame (map scraped_pred [example_pred_even, example_pred_early])"
  have h: "list_all (\<lambda>g. Home_MLOdds g \<noteq> Some 0 \<and> Away_MLOdds g \<noteq> Some 0)
     [example_odds_late, example_odds]"
    by (simp add: example_odds_late_def example_odds_def)
  have pre: "pre_processing example_library ?sbri ?drat
      = Inr ([example_odds_late, example_odds], [example_pred_even, example_pred_early])"
    by (rule example_pre_processing) (rule example_clean_dratings)
  have e: "map_sum id (map (\<lambda>r. (Timestamp r, Status r, BestBetTeam r, BestBetValue r)))
        (perform_baseball_analysis example_library ?sbri ?drat)
      = Inr [(Some 1749913600, ''Missing Odds'', None, None),
             (Some 1750000000, ''Ready for Analysis'', None, None),
             (Some 1750086400, ''Missing Prediction'', None, None)]"
    unfolding example_analysis by (simp add: analysis_unfold del: not_None_eq)
  from analysis_output_rows [of example_library ?sbri ?drat] h
  have "\<exists>out ready.
         perform_baseball_analysis example_library ?sbri ?drat = Inr out
       \<and> analysis_ready (merged_frame [example_odds_late, example_odds]
           [example_pred_even, example_pred_early]) = Inr ready
       \<and> sorted (map ts_key out)
       \<and> set (map status_row.truncate out)
           = set (merged_frame [example_odds_late, example_odds]
               [example_pred_even, example_pred_early])
       \<and> mset (map status_row.truncate out)
           = mset (concat (map (\<lambda>m. replicate (copies ready m) m)
               (merged_frame [example_odds_late, example_odds]
                  [example_pred_even, example_pred_early])))
       \<and> (distinct (map row_key (filter (\<lambda>p. nan_gt (BestBetValue p) (Some 0)) ready)) \<longrightarrow>
             mset (map status_row.truncate out)
               = mset (merged_frame [example_odds_late, example_odds]
                   [example_pred_even, example_pred_early]))
       \<and> (\<forall>r\<in>set out. \<forall>v. BestBetValue r = Some v \<longrightarrow> 0 < v)
       \<and> (\<forall>r\<in>set out.
             (\<forall>p\<in>set ready. row_key p = row_key r \<longrightarrow> \<not> nan_gt (BestBetValue p) (Some 0))
             \<longrightarrow> BestBetTeam r = None \<and> BestBetValue r = None)"
    unfolding pre by simp
  with h pre e show ?thesis
    by blast
qed

text \<open>
  Claim C2, as stated, fails on a ready row with both values negative: the row of
  \<open>analysis_ready_df\<close> has the best value \<open>-17/2500\<close>, and the returned row carries
  neither that value nor a team.
\<close>

theorem nonpositive_best_bet_dropped:
  "map_sum id (map (\<lambda>r. (Status r, HomeValue r, AwayValue r, BestBetValue r)))
     (analysis_ready (merged_frame [example_odds] [example_pred_even]))
   = Inr [(''Ready for Analysis'', Some (- (17 / 2500)), Some (- (2 / 125)),
           Some (- (17 / 2500)))]
   \<and> map_sum id (map (\<lambda>r. (Status r, BestBetTeam r, BestBetValue r)))
       (perform_baseball_analysis example_library (Frame (map scraped_odds [example_odds]))
          (Frame (map scraped_pred [example_pred_even])))
     = Inr [(''Ready for Analysis'', None, None)]"
  unfolding example_analysis
  by (simp add: analysis_unfold del: not_None_eq)









section \<open>Properties of the multi-page collector\<close>

lemma drop_duplicates_seen_keys:
  "set (map key (drop_duplicates_seen key seen rs)) = set (map key rs) - set seen"
  by (induction rs arbitrary: seen) auto

lemma drop_duplicates_seen_distinct:
  "distinct (map key (drop_duplicates_seen key seen rs))"
proof (induction rs arbitrary: seen)
  case Nil
  then show ?case by simp
next
  case (Cons r rs)
  have "key r \<notin> set (map key (drop_duplicates_seen key (key r # seen) rs))"
    unfolding drop_duplicates_seen_keys by simp
  with Cons show ?case by simp
qed

lemma drop_duplicates_seen_first:
  assumes "r \<in> set (drop_duplicates_seen key seen rs)"
  shows "find (\<lambda>x. key x = key r) rs = Some r"
  using assms
proof (induction rs arbitrary: seen)
  case Nil
  then show ?case by simp
next
  case (Cons x rs)
  show ?case
  proof (cases "key x \<in> set seen")
    case True
    with Cons.prems have in_rest: "r \<in> set (drop_duplicates_seen key seen rs)" by simp
    then have "key r \<in> set (map key (drop_duplicates_seen key seen rs))" by force
    then have "key r \<notin> set seen" unfolding drop_duplicates_seen_keys by simp
    with True have "key x \<noteq> key r" by auto
    with Cons.IH [OF in_rest] show ?thesis by simp
  next
    case False
    with Cons.prems consider "r = x" | "r \<in> set (drop_duplicates_seen key (key x # seen) rs)"
      by auto
    then show ?thesis
    proof cases
      case 1
      then show ?thesis by simp
    next
      case 2
      then have "key r \<in> set (map key (drop_duplicates_seen key (key x # seen) rs))" by force
      then have "key r \<noteq> key x" unfolding drop_duplicates_seen_keys by simp
      with Cons.IH [OF 2] show ?thesis by auto
    qed
  qed
qed

lemma drop_duplicates_seen_subseq: "subseq (drop_duplicates_seen key seen rs) rs"
  by (induction rs arbitrary: seen) auto

lemma scrape_page_ok:
  assumes "fetch (page_url url n) \<noteq> ParseFailed"
  shows "scrape_page fetch url (dfs, lg) n =
     Inr (dfs @ (case kept_table (fetch (page_url url n)) of None \<Rightarrow> [] | Some t \<Rightarrow> [t]),
          lg @ page_log fetch url n)"
proof (cases "fetch (page_url url n)")
  case (RequestFailed e)
  then show ?thesis
    by (simp add: scrape_page_def kept_table_def page_log_def skip_warning_def Let_def)
next
  case ParseFailed
  with assms show ?thesis by simp
next
  case (Tables ts)
  then show ?thesis
    by (cases "pitchers_table ts")
       (simp_all add: scrape_page_def kept_table_def page_log_def Let_def)
qed

lemma scrape_pages_ok:
  assumes "\<forall>n\<in>set ns. fetch (page_url url n) \<noteq> ParseFailed"
  shows "scrape_pages fetch url (dfs, lg) ns =
     Inr (dfs @ List.map_filter (\<lambda>n. kept_table (fetch (page_url url n))) ns,
          lg @ concat (map (page_log fetch url) ns))"
  using assms
proof (induction ns arbitrary: dfs lg)
  case Nil
  then show ?case by simp
next
  case (Cons n ns)
  then show ?case
    by (cases "kept_table (fetch (page_url url n))")
       (simp_all add: scrape_page_ok)
qed

lemma scrape_pages_parse_failure:
  assumes "fetch (page_url url n) = ParseFailed"
    and "\<forall>k\<in>set ns. fetch (page_url url k) \<noteq> ParseFailed"
  shows "scrape_pages fetch url (dfs, lg) (ns @ n # rest) =
     Inl (ValueError, lg @ concat (map (page_log fetch url) ns)
            @ [(INFO, ''Scraping page '' @ str_nat n @ '': '' @ page_url url n)])"
  using assms
proof (induction ns arbitrary: dfs lg)
  case Nil
  then show ?case by (simp add: scrape_page_def Let_def)
next
  case (Cons k ns)
  then show ?case by (simp add: scrape_page_ok)
qed

lemma skip_warnings_page_log:
  "skip_warnings (page_log fetch url n) =
     (case fetch (page_url url n) of RequestFailed e \<Rightarrow> [skip_warning n e] | _ \<Rightarrow> [])"
proof (cases "fetch (page_url url n)")
  case (RequestFailed e)
  then show ?thesis
    by (simp add: skip_warnings_def page_log_def skip_warning_def)
next
  case ParseFailed
  then show ?thesis
    by (simp add: skip_warnings_def page_log_def)
next
  case (Tables ts)
  then show ?thesis
    by (cases "pitchers_table ts")
       (simp_all add: skip_warnings_def page_log_def quoted_pitchers_def)
qed

lemma skip_warnings_append: "skip_warnings (xs @ ys) = skip_warnings xs @ skip_warnings ys"
  by (simp add: skip_warnings_def)

lemma skip_warnings_pages:
  "skip_warnings (concat (map (page_log fetch url) ns)) = skipped_pages fetch url ns"
proof (induction ns)
  case Nil
  then show ?case by (simp add: skip_warnings_def skipped_pages_def)
next
  case (Cons n ns)
  then show ?case
    by (cases "fetch (page_url url n)")
       (simp_all add: skip_warnings_append skip_warnings_page_log skipped_pages_def)
qed

lemma upt_0_3: "[0 ..< 3] = [0, 1, 2]"
  by (simp add: upt_rec)

lemma clean_frame_rows:
  assumes "clean_frame parse kept = Inr df"
  shows "rows df = sort_key dratings_sort_key
     (filter (\<lambda>r. cell_of r ''Time'' \<noteq> None)
        (map (clean_row parse)
           (drop_duplicates_seen (\<lambda>r. cell_of r ''Teams'') [] (concat (map rows kept)))))"
proof -
  let ?dd = "drop_duplicates_seen (\<lambda>r. cell_of r ''Teams'') [] (concat (map rows kept))"
  from assms obtain df1 df2 df3 where
    d1: "drop_duplicates ''Teams'' (concat_tables kept) = Inr df1" and
    d2: "str_replace_column ''Teams'' ''Oakland Athletics'' ''Athletics''
           (drop_columns [''Pitchers'', ''Best ML'', ''Best Spread'', ''Best O/U''] df1) = Inr df2" and
    d3: "parse_time_column parse df2 = Inr df3" and
    d: "df = (dropna_time df3)\<lparr>rows := sort_key dratings_sort_key (rows (dropna_time df3))\<rparr>"
    by (auto simp: clean_frame_def split: sum.splits)
  from d1 have r1: "rows df1 = ?dd"
    by (auto simp: drop_duplicates_def concat_tables_def split: if_splits)
  from d2 have r2: "rows df2 = map (\<lambda>r. set_cell ''Teams''
        (case cell_of r ''Teams'' of
           Some (Text s) \<Rightarrow> Some (Text (str_replace ''Oakland Athletics'' ''Athletics'' s))
         | _ \<Rightarrow> None) r)
      (map (filter (\<lambda>(c, v). c \<notin> set [''Pitchers'', ''Best ML'', ''Best Spread'', ''Best O/U''])) (rows df1))"
    by (auto simp: str_replace_column_def drop_columns_def split: if_splits)
  from d3 have r3: "rows df3 = map (\<lambda>r. set_cell ''Time''
        (map_option Instant (Option.bind (cell_of r ''Time'') parse)) r) (rows df2)"
    by (auto simp: parse_time_column_def split: if_splits)
  have "rows df3 = map (clean_row parse) ?dd"
    unfolding r3 r2 r1 by (simp add: clean_row_def Let_def o_def)
  then show ?thesis
    unfolding d by (simp add: dropna_time_def)
qed

lemma cell_of_drop:
  "c \<notin> set cs \<Longrightarrow> cell_of (filter (\<lambda>(k, v). k \<notin> set cs) r) c = cell_of r c"
  by (induction r) (auto simp: cell_of_def)

lemma clean_frame_returns:
  assumes "''Teams'' \<in> set (concat (map columns kept))"
    and "''Time'' \<in> set (concat (map columns kept))"
    and "deduped = drop_duplicates_seen (\<lambda>r. cell_of r ''Teams'') [] (concat (map rows kept))"
    and "deduped = [] \<or> list_ex (\<lambda>r. is_text (cell_of r ''Teams'')) deduped"
  shows "\<exists>df. clean_frame parse kept = Inr df"
proof -
  let ?cs = "[''Pitchers'', ''Best ML'', ''Best Spread'', ''Best O/U'']"
  let ?df1 = "(concat_tables kept)\<lparr>rows := deduped\<rparr>"
  have d1: "drop_duplicates ''Teams'' (concat_tables kept) = Inr ?df1"
    using assms(1,3) by (simp add: drop_duplicates_def concat_tables_def)
  have c: "''Teams'' \<in> set (columns (drop_columns ?cs ?df1))"
    "''Time'' \<in> set (columns (drop_columns ?cs ?df1))"
    using assms(1,2) by (simp_all add: drop_columns_def concat_tables_def)
  have "''Teams'' \<notin> set ?cs" by simp
  then have "cell_of (filter (\<lambda>(k, v). k \<notin> set ?cs) r) ''Teams'' = cell_of r ''Teams''" for r
    by (rule cell_of_drop)
  then have "str_accessor_ok ''Teams'' (drop_columns ?cs ?df1)"
    using assms(4) by (auto simp: str_accessor_ok_def drop_columns_def list_ex_iff)
  with c(1) obtain df2 where d2: "str_replace_column ''Teams'' ''Oakland Athletics'' ''Athletics''
      (drop_columns ?cs ?df1) = Inr df2" and c2: "columns df2 = columns (drop_columns ?cs ?df1)"
    by (simp add: str_replace_column_def)
  from c(2) c2 obtain df3 where d3: "parse_time_column parse df2 = Inr df3"
    by (simp add: parse_time_column_def)
  show ?thesis
    by (simp add: clean_frame_def d1 d2 d3)
qed

text \<open>
  The tolerance the collector has: when no page makes \<open>pd.read_html\<close> raise, it
  goes through all three pages; a page whose request fails (a \<open>RequestException\<close>)
  contributes no table and exactly one warning to the log, and the frame is built from
  the tables kept on the other pages: their rows in page order, de-duplicated by the
  column \<open>Teams\<close> keeping the first occurrence, then cleaned, the rows whose time
  cannot be read dropped, and sorted by time and teams. The frame is returned when a
  table was kept, the kept tables have the columns \<open>Teams\<close> and \<open>Time\<close>, and
  \<open>Teams\<close> is a text column. In particular, when pages 0 and 1 are fetched and the
  request for page 2 fails, the frame is built from the tables of pages 0 and 1 and the
  log reports page 2, and only page 2, as skipped.
\<close>

theorem failed_page_is_skipped:
  assumes "\<forall>n\<in>set [0 ..< 3]. fetch (page_url url n) \<noteq> ParseFailed"
  shows "\<exists>result lg kept deduped.
       scrape_dratings_data parse fetch url = (result, lg)
     \<and> kept = List.map_filter (\<lambda>n. kept_table (fetch (page_url url n))) [0 ..< 3]
     \<and> deduped = drop_duplicates_seen (\<lambda>r. cell_of r ''Teams'') [] (concat (map rows kept))
     \<and> result = (if kept = [] then Inr None else map_sum id Some (clean_frame parse kept))
     \<and> skip_warnings lg = skipped_pages fetch url [0 ..< 3]
     \<and> distinct (map (\<lambda>r. cell_of r ''Teams'') deduped)
     \<and> (\<forall>r\<in>set deduped.
           find (\<lambda>x. cell_of x ''Teams'' = cell_of r ''Teams'') (concat (map rows kept)) = Some r)
     \<and> (\<forall>df. result = Inr (Some df) \<longrightarrow>
           rows df = sort_key dratings_sort_key
             (filter (\<lambda>r. cell_of r ''Time'' \<noteq> None) (map (clean_row parse) deduped)))
     \<and> (kept \<noteq> [] \<and> ''Teams'' \<in> set (concat (map columns kept))
          \<and> ''Time'' \<in> set (concat (map columns kept))
          \<and> (deduped = [] \<or> list_ex (\<lambda>r. is_text (cell_of r ''Teams'')) deduped) \<longrightarrow>
           (\<exists>df. result = Inr (Some df)))
     \<and> (\<forall>ts0 ts1 e.
           fetch (page_url url 0) = Tables ts0 \<and> fetch (page_url url 1) = Tables ts1
           \<and> fetch (page_url url 2) = RequestFailed e \<longrightarrow>
           kept = List.map_filter pitchers_table [ts0, ts1]
           \<and> skip_warnings lg = [skip_warning 2 e])"
proof -
  let ?kept = "List.map_filter (\<lambda>n. kept_table (fetch (page_url url n))) [0 ..< 3]"
  let ?lg = "concat (map (page_log fetch url) [0 ..< 3])"
  let ?dd = "drop_duplicates_seen (\<lambda>r. cell_of r ''Teams'') [] (concat (map rows ?kept))"
  let ?result = "if ?kept = [] then Inr None else map_sum id Some (clean_frame parse ?kept)"
  let ?log = "if ?kept = [] then ?lg @ [(ERROR, ''Failed to scrape any data from DRatings.'')]
     else ?lg"
  have loop: "scrape_pages fetch url ([], []) [0 ..< 3] = Inr (?kept, ?lg)"
    using scrape_pages_ok [OF assms, of "[]" "[]"] by simp
  have run: "scrape_dratings_data parse fetch url = (?result, ?log)"
    unfolding scrape_dratings_data_def loop
    by (cases "clean_frame parse ?kept") simp_all
  have warn: "skip_warnings ?log = skipped_pages fetch url [0 ..< 3]"
    by (simp add: skip_warnings_append skip_warnings_pages)
       (simp add: skip_warnings_def)
  have dist: "distinct (map (\<lambda>r. cell_of r ''Teams'') ?dd)"
    by (rule drop_duplicates_seen_distinct)
  have first: "\<forall>r\<in>set ?dd.
      find (\<lambda>x. cell_of x ''Teams'' = cell_of r ''Teams'') (concat (map rows ?kept)) = Some r"
    using drop_duplicates_seen_first [of _ "\<lambda>r. cell_of r ''Teams''" "[]"] by blast
  have rws: "rows df = sort_key dratings_sort_key
             (filter (\<lambda>r. cell_of r ''Time'' \<noteq> None) (map (clean_row parse) ?dd))"
    if "?result = Inr (Some df)" for df
  proof -
    from that have "clean_frame parse ?kept = Inr df"
      by (cases "clean_frame parse ?kept") (auto split: if_splits)
    then show ?thesis by (rule clean_frame_rows)
  qed
  have ret: "\<exists>df. ?result = Inr (Some df)"
    if "?kept \<noteq> []" "''Teams'' \<in> set (concat (map columns ?kept))"
      "''Time'' \<in> set (concat (map columns ?kept))"
      "?dd = [] \<or> list_ex (\<lambda>r. is_text (cell_of r ''Teams'')) ?dd"
  proof -
    from clean_frame_returns [OF that(2,3) refl that(4), of parse]
    obtain df where "clean_frame parse ?kept = Inr df" by blast
    with that(1) show ?thesis by simp
  qed
  have part: "?kept = List.map_filter pitchers_table [ts0, ts1]
           \<and> skip_warnings ?log = [skip_warning 2 e]"
    if "fetch (page_url url 0) = Tables ts0" "fetch (page_url url 1) = Tables ts1"
       "fetch (page_url url 2) = RequestFailed e" for ts0 ts1 e
    unfolding warn using that
    by (simp add: upt_0_3 kept_table_def skipped_pages_def List.map_filter_simps
        split: option.splits)
  from run warn dist first rws ret part show ?thesis
    by blast
qed


lemmas dratings_unfold =
  scrape_dratings_data_def scrape_page_def page_url_def pitchers_table_def clean_frame_def
  concat_tables_def drop_duplicates_def drop_columns_def str_replace_column_def
  str_accessor_ok_def is_text_def set_cell_def parse_time_column_def dropna_time_def
  dratings_sort_key_def cell_of_def example_fetch_def example_fetch_unparsable_def
  example_row_def example_to_datetime_def upt_0_3 Let_def str_nat.simps digit_char_def
  skip_warnings_def skip_warning_def quoted_pitchers_def

theorem failed_page_is_skipped_witness:
  "example_fetch (page_url ''https://example.org/mlb/'' 0) \<noteq> ParseFailed
   \<and> example_fetch (page_url ''https://example.org/mlb/'' 1) \<noteq> ParseFailed
   \<and> example_fetch (page_url ''https://example.org/mlb/'' 2)
       = RequestFailed ''504 Server Error: Gateway Time-out''
   \<and> fst (scrape_dratings_data example_to_datetime example_fetch ''https://example.org/mlb/'')
       = Inr (Some \<lparr>columns = [''Time'', ''Teams'', ''Win''],
            rows = [[(''Time'', Instant 1750028700),
                     (''Teams'', Text ''New York Yankees (40-30) Boston Red Sox (35-35)''),
                     (''Win'', Text ''40.0% 60.0%'')],
                    [(''Time'', Instant 1750093800),
                     (''Teams'', Text ''Athletics (30-40) Texas Rangers (36-34)''),
                     (''Win'', Text ''40.0% 60.0%'')]]\<rparr>)
   \<and> skip_warnings
         (snd (scrape_dratings_data example_to_datetime example_fetch ''https://example.org/mlb/''))
       = [(WARNING, ''Could not scrape DRatings page 2: 504 Server Error: Gateway Time-out'')]"
proof -
  let ?url = "''https://example.org/mlb/''"
  have p: "example_fetch (page_url ?url 0) \<noteq> ParseFailed"
    "example_fetch (page_url ?url 1) \<noteq> ParseFailed"
    "example_fetch (page_url ?url 2) = RequestFailed ''504 Server Error: Gateway Time-out''"
    by (simp_all add: page_url_def str_nat.simps digit_char_def example_fetch_def)
  then have h: "\<forall>n\<in>set [0 ..< 3]. example_fetch (page_url ?url n) \<noteq> ParseFailed"
    by (simp add: upt_0_3)
  obtain ts0 ts1 where t: "example_fetch (page_url ?url 0) = Tables ts0"
    "example_fetch (page_url ?url 1) = Tables ts1"
    by (simp add: page_url_def str_nat.simps digit_char_def example_fetch_def)
  from failed_page_is_skipped [OF h, of example_to_datetime] t p(3)
  have w: "skip_warnings (snd (scrape_dratings_data example_to_datetime example_fetch ?url))
      = [skip_warning 2 ''504 Server Error: Gateway Time-out'']"
    by auto
  have e: "fst (scrape_dratings_data example_to_datetime example_fetch ?url)
       = Inr (Some \<lparr>columns = [''Time'', ''Teams'', ''Win''],
            rows = [[(''Time'', Instant 1750028700),
                     (''Teams'', Text ''New York Yankees (40-30) Boston Red Sox (35-35)''),
                     (''Win'', Text ''40.0% 60.0%'')],
                    [(''Time'', Instant 1750093800),
                     (''Teams'', Text ''Athletics (30-40) Texas Rangers (36-34)''),
                     (''Win'', Text ''40.0% 60.0%'')]]\<rparr>)"
    by (simp add: dratings_unfold)
  from p w e show ?thesis
    by (simp add: skip_warning_def str_nat.simps digit_char_def)
qed

text \<open>
  Claim C8 has a page that fails to parse skipped like a page that fails to fetch,
  and the rows of pages 0 and 1 returned when page 2 fails. The code does not do so:
  with pages 0 and 1 fetched as before and a page 2 that is fetched and on which
  \<open>pd.read_html\<close> raises, the \<open>ValueError\<close> is not caught by the handler for
  \<open>RequestException\<close> and escapes the function, which returns no rows, those of pages
  0 and 1 included, and reports no skipped page.
\<close>

theorem unparsable_page_aborts:
  "example_fetch_unparsable (page_url ''https://example.org/mlb/'' 0)
     = example_fetch (page_url ''https://example.org/mlb/'' 0)
   \<and> example_fetch_unparsable (page_url ''https://example.org/mlb/'' 1)
     = example_fetch (page_url ''https://example.org/mlb/'' 1)
   \<and> example_fetch_unparsable (page_url ''https://example.org/mlb/'' 2) = ParseFailed
   \<and> fst (scrape_dratings_data example_to_datetime example_fetch_unparsable
         ''https://example.org/mlb/'') = Inl ValueError
   \<and> skip_warnings (snd (scrape_dratings_data example_to_datetime example_fetch_unparsable
         ''https://example.org/mlb/'')) = []"
  by (simp add: dratings_unfold)


section \<open>Properties of the fixed-width table parser\<close>

lemma parse_table_no_rows:
  assumes "read_fwf table_text = []"
  shows "parse_table numeric table_text = Inr []"
  using assms
  by (simp add: parse_table_def str_strip_column_def is_text_column_def map_column_def)

lemma str_nat_0: "str_nat 0 = ''0''"
  by (simp add: str_nat.simps digit_char_def)

lemma scrape_tpt_data_reports:
  "\<exists>lvl m. snd (scrape_tpt_data numeric response) = [(lvl, m)]
     \<and> (fst (scrape_tpt_data numeric response) = None \<longrightarrow> lvl \<noteq> INFO)"
  by (auto simp: scrape_tpt_data_def split: tpt_response.splits option.splits sum.splits)

text \<open>
  Claim C9: the parser returns \<open>None\<close> with one error record when the page has no
  \<open>pre\<close> element and when the text lacks the header phrase; when no row is parsed
  it returns the empty frame with the record that 0 rows were parsed, which \<open>main\<close>
  treats as no data; when the separator is missing it parses the whole remainder of the
  text after the two header lines; and on every response it writes exactly one log
  record, a warning or an error whenever it returns \<open>None\<close>. No exception escapes:
  both handlers return.
\<close>

theorem tpt_failure_modes:
  "scrape_tpt_data numeric (TptPage None)
     = (None, [(ERROR, ''Could not find a <pre> tag on the page.'')])
   \<and> (find_sub header_start text1 = None \<longrightarrow>
        scrape_tpt_data numeric (TptPage (Some text1))
          = (None, [(ERROR, ''Could not find the data table header in the <pre> tag.'')]))
   \<and> (find_sub header_start text2 = Some i2
        \<and> read_fwf (before_separator (after_header text2 i2)) = [] \<longrightarrow>
        scrape_tpt_data numeric (TptPage (Some text2))
          = (Some [], [(INFO, ''Successfully parsed 0 rows of data.'')])
        \<and> \<not> has_data (fst (scrape_tpt_data numeric (TptPage (Some text2)))))
   \<and> (find_sub header_start text3 = Some i3
        \<and> find_sub separator (after_header text3 i3) = None \<longrightarrow>
        before_separator (after_header text3 i3) = after_header text3 i3
        \<and> scrape_tpt_data numeric (TptPage (Some text3))
          = (case parse_table numeric (after_header text3 i3) of
               Inl e \<Rightarrow> (None, [(ERROR, ''An error occurred while parsing the data: ''
                                      @ exception_text e)])
             | Inr df \<Rightarrow> (Some df, [(INFO, ''Successfully parsed '' @ str_nat (length df)
                                       @ '' rows of data.'')])))
   \<and> (\<exists>lvl m. snd (scrape_tpt_data numeric response) = [(lvl, m)]
         \<and> (fst (scrape_tpt_data numeric response) = None \<longrightarrow> lvl \<noteq> INFO))"
proof -
  have a: "scrape_tpt_data numeric (TptPage None)
     = (None, [(ERROR, ''Could not find a <pre> tag on the page.'')])"
    by (simp add: scrape_tpt_data_def)
  have b: "scrape_tpt_data numeric (TptPage (Some text1))
          = (None, [(ERROR, ''Could not find the data table header in the <pre> tag.'')])"
    if "find_sub header_start text1 = None"
    using that by (simp add: scrape_tpt_data_def)
  have c: "scrape_tpt_data numeric (TptPage (Some text2))
          = (Some [], [(INFO, ''Successfully parsed 0 rows of data.'')])"
    if "find_sub header_start text2 = Some i2"
      "read_fwf (before_separator (after_header text2 i2)) = []"
    using that by (simp add: scrape_tpt_data_def parse_table_no_rows str_nat_0)
  have d: "before_separator (after_header text3 i3) = after_header text3 i3"
    if "find_sub separator (after_header text3 i3) = None"
    using that by (simp add: before_separator_def)
  have e: "scrape_tpt_data numeric (TptPage (Some text3))
          = (case parse_table numeric (after_header text3 i3) of
               Inl e \<Rightarrow> (None, [(ERROR, ''An error occurred while parsing the data: ''
                                      @ exception_text e)])
             | Inr df \<Rightarrow> (Some df, [(INFO, ''Successfully parsed '' @ str_nat (length df)
                                       @ '' rows of data.'')]))"
    if "find_sub header_start text3 = Some i3" "find_sub separator (after_header text3 i3) = None"
    using that by (simp add: scrape_tpt_data_def d)
  have f: "\<exists>lvl m. snd (scrape_tpt_data numeric response) = [(lvl, m)]
         \<and> (fst (scrape_tpt_data numeric response) = None \<longrightarrow> lvl \<noteq> INFO)"
    by (rule scrape_tpt_data_reports)
  from a b c d e f show ?thesis
    by (simp add: has_data_def)
qed


lemmas tpt_unfold =
  scrape_tpt_data_def parse_table_def read_fwf_def fields_row_def cut_fields_def col_specs_def
  col_names_def na_values_def strip_chars_def whitespace_def header_start_def separator_def
  after_header_def before_separator_def splitlines_def is_linebreak_def is_text_column_def
  str_strip_column_def map_column_def field_of_def replace_team_def TEAM_NAME_MAP_def
  add_matchup_def example_pre_text_def example_pre_text_open_def example_pre_text_empty_def
  example_pre_lines_def example_numeric_def str_nat.simps digit_char_def Let_def

theorem tpt_failure_modes_witness:
  "find_sub header_start ''no table here'' = None
   \<and> scrape_tpt_data example_numeric (TptPage (Some ''no table here''))
       = (None, [(ERROR, ''Could not find the data table header in the <pre> tag.'')])
   \<and> find_sub header_start example_pre_text_empty = Some 24
   \<and> read_fwf (before_separator (after_header example_pre_text_empty 24)) = []
   \<and> scrape_tpt_data example_numeric (TptPage (Some example_pre_text_empty))
       = (Some [], [(INFO, ''Successfully parsed 0 rows of data.'')])
   \<and> find_sub header_start example_pre_text_open = Some 24
   \<and> find_sub separator (after_header example_pre_text_open 24) = None
   \<and> scrape_tpt_data example_numeric (TptPage (Some example_pre_text_open))
       = (Some
           [[(''Home'', ''New York Jets''), (''Visitor'', ''Buffalo Bills''),
             (''OpeningLine'', ''-3.5''), (''UpdatedLine'', ''-3.0''),
             (''MidweekLine'', ''-3.0''), (''PredictionAvg'', ''-2.85''),
             (''PredictionMedian'', ''-3.00''), (''PredictionStdDev'', ''1.20''),
             (''PredictionMin'', ''-5.0''), (''PredictionMax'', ''-1.0''),
             (''ProbabilityWins'', ''0.58''), (''ProbabilityCovers'', ''0.49''),
             (''Matchup'', ''Buffalo Bills at New York Jets'')],
            [(''Home'', ''Dallas Cowboys''), (''Visitor'', ''Philadelphia Eagles''),
             (''OpeningLine'', ''1.5''), (''UpdatedLine'', ''2.0''),
             (''PredictionAvg'', ''2.10''), (''PredictionMedian'', ''2.00''),
             (''PredictionStdDev'', ''0.95''), (''PredictionMin'', ''0.5''),
             (''PredictionMax'', ''4.0''), (''ProbabilityWins'', ''0.44''),
             (''ProbabilityCovers'', ''0.51''),
             (''Matchup'', ''Philadelphia Eagles at Dallas Cowboys'')]],
          [(INFO, ''Successfully parsed 2 rows of data.'')])
   \<and> fst (scrape_tpt_data example_numeric (TptRequestFailed ''Read timed out.'')) = None
   \<and> snd (scrape_tpt_data example_numeric (TptRequestFailed ''Read timed out.''))
       = [(WARNING, ''Could not scrape TPT page: Read timed out.'')]"
proof -
  have h1: "find_sub header_start ''no table here'' = None"
    by (simp add: header_start_def)
  have h2: "find_sub header_start example_pre_text_empty = Some 24"
    by (simp add: tpt_unfold)
  have h3: "read_fwf (before_separator (after_header example_pre_text_empty 24)) = []"
    by (simp add: tpt_unfold)
  have h4: "find_sub header_start example_pre_text_open = Some 24"
    by (simp add: tpt_unfold)
  have h5: "find_sub separator (after_header example_pre_text_open 24) = None"
    by (simp add: tpt_unfold)
  have p: "parse_table example_numeric (after_header example_pre_text_open 24)
       = Inr
           [[(''Home'', ''New York Jets''), (''Visitor'', ''Buffalo Bills''),
             (''OpeningLine'', ''-3.5''), (''UpdatedLine'', ''-3.0''),
             (''MidweekLine'', ''-3.0''), (''PredictionAvg'', ''-2.85''),
             (''PredictionMedian'', ''-3.00''), (''PredictionStdDev'', ''1.20''),
             (''PredictionMin'', ''-5.0''), (''PredictionMax'', ''-1.0''),
             (''ProbabilityWins'', ''0.58''), (''ProbabilityCovers'', ''0.49''),
             (''Matchup'', ''Buffalo Bills at New York Jets'')],
            [(''Home'', ''Dallas Cowboys''), (''Visitor'', ''Philadelphia Eagles''),
             (''OpeningLine'', ''1.5''), (''UpdatedLine'', ''2.0''),
             (''PredictionAvg'', ''2.10''), (''PredictionMedian'', ''2.00''),
             (''PredictionStdDev'', ''0.95''), (''PredictionMin'', ''0.5''),
             (''PredictionMax'', ''4.0''), (''ProbabilityWins'', ''0.44''),
             (''ProbabilityCovers'', ''0.51''),
             (''Matchup'', ''Philadelphia Eagles at Dallas Cowboys'')]]"
    by (simp add: tpt_unfold)
  have w: "scrape_tpt_data example_numeric (TptRequestFailed ''Read timed out.'')
      = (None, [(WARNING, ''Could not scrape TPT page: Read timed out.'')])"
    by (simp add: scrape_tpt_data_def)
  have n2: "str_nat (Suc (Suc 0)) = ''2''"
    by (simp add: str_nat.simps digit_char_def)
  from tpt_failure_modes [of example_numeric "''no table here''" example_pre_text_empty 24
      example_pre_text_open 24 "TptRequestFailed ''Read timed out.''"]
    h1 h2 h3 h4 h5 w
  show ?thesis
    by (simp add: p n2)
qed


end
